theory Spec2Isabelle
  imports Complex_Main "HOL-Library.Sublist" "HOL-Library.Multiset"
    "HOL-Library.Product_Lexorder"
begin

section \<open>Data model (utils/models.py)\<close>

text \<open>
  Python strings are modelled as \<open>string\<close>, the UTF-8 bytes of the text; a non-ASCII
  literal of the source is written as its bytes.

  A Python float is a number, an infinity or NaN (\<open>json.loads\<close> produces all of them).
  The orchestrator only compares floats: \<open>float_ge a b\<close> is Python's \<open>a >= b\<close>, false as
  soon as one side is NaN.
\<close>

datatype pyfloat = Finite real | PosInf | NegInf | NaN

fun float_ge :: "pyfloat \<Rightarrow> pyfloat \<Rightarrow> bool" where
  "float_ge NaN b = False"
| "float_ge a NaN = False"
| "float_ge PosInf b = True"
| "float_ge a NegInf = True"
| "float_ge (Finite x) (Finite y) = (x \<ge> y)"
| "float_ge (Finite x) PosInf = False"
| "float_ge NegInf b = False"

record SearchRequest =
  query :: string
  page :: int
  pageSize :: int
  searchType :: string
  enableLlm :: bool

record SearchResult =
  id' :: string
  title :: string
  keywords' :: "string list"
  abstract :: string
  score :: pyfloat
  source :: "string option"
  matched_keywords :: "string list option"
  relevance_reason :: "string option"

record SearchResponse =
  total :: int
  results :: "SearchResult list"
  response_searchType :: string
  rewrittenTerms :: "string list option"
  search_id :: "string option"

text \<open>Every \<open>raise Exception(msg)\<close> and every exception of a collaborator is a value.\<close>

datatype error = Exception string

section \<open>The search engine's request and response\<close>

text \<open>
  The request body handed to \<open>opensearch_client.search\<close> is a nested dict; the shapes the
  three builders and the supplementation produce are the constructors below.
  \<open>Terms_id\<close> is \<open>{"terms": {"id": list(seen_ids)}}\<close>: the ids come from a Python set.
\<close>

datatype clause =
    Match_phrase_boost string string int
  | Match_phrase string string
  | Terms_id "string set"

datatype knn_query = Knn "pyfloat list" int

datatype query_dsl =
    Bool_should "clause list" int
  | Bool_must_knn knn_query "clause list"
  | Knn_query knn_query
  | Hybrid "query_dsl list"

record search_body =
  body_from :: "int option"
  body_size :: int
  body_query :: query_dsl
  body_source :: "string list"
  body_highlight :: "string list option"

text \<open>
  A hit as the engine returns it: \<open>_source\<close> with \<open>id\<close>, \<open>title\<close>, \<open>abstract\<close> and an
  optional \<open>keywords\<close> (read with \<open>.get('keywords', [])\<close>), \<open>_score\<close>, and an optional
  \<open>highlight\<close> dict from field name to fragments (read with \<open>.get('highlight', {})\<close>).
\<close>

record hit_source =
  src_id :: string
  src_title :: string
  src_keywords :: "string list option"
  src_abstract :: string

record hit =
  h_source :: hit_source
  h_score :: pyfloat
  h_highlight :: "(string \<times> string list) list option"

record engine_response =
  hits :: "hit list"
  total_value :: int

section \<open>Query builders (main.py)\<close>

text \<open>
  \<open>for keyword in query_terms: should_queries.extend([title, keywords, abstract])\<close>:
  the loop appends three boosted phrase clauses per term to the accumulator.
\<close>

definition boosted_clauses :: "string \<Rightarrow> clause list" where
  "boosted_clauses keyword =
     [Match_phrase_boost ''title'' keyword 5,
      Match_phrase_boost ''keywords'' keyword 10,
      Match_phrase_boost ''abstract'' keyword 2]"

definition should_queries :: "string list \<Rightarrow> clause list" where
  "should_queries query_terms =
     fold (\<lambda>keyword acc. acc @ boosted_clauses keyword) query_terms []"

definition excluded_clauses :: "string \<Rightarrow> clause list" where
  "excluded_clauses keyword =
     [Match_phrase ''title'' keyword,
      Match_phrase ''keywords'' keyword,
      Match_phrase ''abstract'' keyword]"

definition must_not_queries :: "clause list \<Rightarrow> string list \<Rightarrow> clause list" where
  "must_not_queries init query_terms =
     fold (\<lambda>keyword acc. acc @ excluded_clauses keyword) query_terms init"

definition source_fields :: "string list" where
  "source_fields = [''id'', ''title'', ''abstract'', ''keywords'']"

definition highlight_fields :: "string list" where
  "highlight_fields = [''title'', ''abstract'', ''keywords'']"

definition build_keyword_search_query :: "string list \<Rightarrow> int \<Rightarrow> int \<Rightarrow> search_body" where
  "build_keyword_search_query query_terms page_no page_size =
     (let from_value = (page_no - 1) * page_size in
      \<lparr>body_from = Some from_value,
       body_size = page_size,
       body_query = Bool_should (should_queries query_terms) 1,
       body_source = source_fields,
       body_highlight = Some highlight_fields\<rparr>)"

definition build_vector_search_query ::
  "pyfloat list \<Rightarrow> string list \<Rightarrow> int \<Rightarrow> int \<Rightarrow> search_body" where
  "build_vector_search_query query_embedding query_terms page_no page_size =
     (let from_value = (page_no - 1) * page_size in
      \<lparr>body_from = Some from_value,
       body_size = page_size,
       body_query = Bool_must_knn (Knn query_embedding page_size)
                      (must_not_queries [] query_terms),
       body_source = source_fields,
       body_highlight = None\<rparr>)"

definition build_hybrid_search_query ::
  "string list \<Rightarrow> pyfloat list \<Rightarrow> int \<Rightarrow> int \<Rightarrow> search_body" where
  "build_hybrid_search_query query_terms query_embedding page_no page_size =
     (let from_value = (page_no - 1) * page_size in
      \<lparr>body_from = Some from_value,
       body_size = page_size,
       body_query = Hybrid [Bool_should (should_queries query_terms) 1,
                            Knn_query (Knn query_embedding page_size)],
       body_source = source_fields,
       body_highlight = Some highlight_fields\<rparr>)"

section \<open>Python values the orchestrator reads\<close>

text \<open>
  What \<open>json.loads\<close> returns: \<open>None\<close>, a bool, an int, a float, a string, a list or a
  dict (a list of key-value pairs, read with \<open>map_of\<close>). \<open>truthy\<close> is the truth value
  Python gives the object in \<open>if x:\<close>, and \<open>type_name\<close> the name of its type.
\<close>

datatype json =
    JNull
  | JBool bool
  | JInt int
  | JFloat pyfloat
  | JString string
  | JArray "json list"
  | JObject "(string \<times> json) list"

fun truthy :: "json \<Rightarrow> bool" where
  "truthy JNull = False"
| "truthy (JBool b) = b"
| "truthy (JInt i) = (i \<noteq> 0)"
| "truthy (JFloat f) = (f \<noteq> Finite 0)"
| "truthy (JString s) = (s \<noteq> [])"
| "truthy (JArray xs) = (xs \<noteq> [])"
| "truthy (JObject kvs) = (kvs \<noteq> [])"

fun type_name :: "json \<Rightarrow> string" where
  "type_name JNull = ''NoneType''"
| "type_name (JBool b) = ''bool''"
| "type_name (JInt i) = ''int''"
| "type_name (JFloat f) = ''float''"
| "type_name (JString s) = ''str''"
| "type_name (JArray xs) = ''list''"
| "type_name (JObject kvs) = ''dict''"

text \<open>\<open>d.get(key, default)\<close>\<close>

definition dict_get :: "(string \<times> json) list \<Rightarrow> string \<Rightarrow> json \<Rightarrow> json" where
  "dict_get kvs k dflt = (case map_of kvs k of Some v \<Rightarrow> v | None \<Rightarrow> dflt)"

text \<open>
  The decoded body the rerank endpoint answers with: a dict with \<open>data\<close>, a list of
  items of which \<open>float(item['score'])\<close> is taken (\<open>None\<close>: an item for which that
  raises), or anything else.
\<close>

datatype rerank_body = Rerank_data "pyfloat option list" | Rerank_other

section \<open>Collaborators and library functions\<close>

text \<open>
  The handles of \<open>AsyncPaperSearch\<close> (\<open>None\<close> when initialisation failed or was not
  configured), the settings read by the orchestrator, and the service calls it makes.
  A call that can raise returns \<open>Inl\<close>. \<open>chat_completion\<close> takes the query and the
  text the fixed prompt is built from and returns the message content. \<open>embedder\<close>
  returns \<open>get_embeddings(text)[0].tolist()\<close>.

  The functions of the Python library whose result depends on Unicode tables or on the
  interpreter are parameters as well:
  \<^item> \<open>str_lower\<close> is \<open>str.lower\<close> and \<open>str_strip\<close> is \<open>str.strip\<close>;
  \<^item> \<open>re_skip_space s\<close> is what is left of \<open>s\<close> after the longest match of \<open>\s*\<close>;
  \<^item> \<open>set_order xs\<close> is \<open>list(set(xs))\<close>, whose order depends on the hash seed;
  \<^item> \<open>sort_order_nan keys\<close> tells, for a list whose keys contain NaN, from which
    position \<open>list.sort(reverse=True)\<close> takes each element of its result.
\<close>

record env =
  opensearch_client ::
    "(string \<Rightarrow> search_body \<Rightarrow> (string \<times> string) list \<Rightarrow> error + engine_response) option"
  embedder :: "(string \<Rightarrow> error + pyfloat list) option"
  reranker :: "(string \<Rightarrow> string list \<Rightarrow> error + rerank_body) option"
  cache :: "(string \<Rightarrow> string \<Rightarrow> SearchResponse \<Rightarrow> bool \<Rightarrow> error + string option) option"
  ENABLE_RERANK :: bool
  OPENSEARCH_INDEX_NAME :: string
  openai_api_key :: string
  chat_completion :: "string \<Rightarrow> string \<Rightarrow> error + string"
  json_loads :: "string \<Rightarrow> json option"
  unquote :: "string \<Rightarrow> error + string"
  expand_query :: "string \<Rightarrow> error + string list"
  str_lower :: "string \<Rightarrow> string"
  str_strip :: "string \<Rightarrow> string"
  re_skip_space :: "string \<Rightarrow> string"
  set_order :: "string list \<Rightarrow> string list"
  sort_order_nan :: "pyfloat list \<Rightarrow> nat list"

definition str :: "error \<Rightarrow> string" where
  "str e = (case e of Exception msg \<Rightarrow> msg)"

text \<open>The message of the \<open>AttributeError\<close> for a missing attribute.\<close>

definition has_no_attribute :: "string \<Rightarrow> string \<Rightarrow> string" where
  "has_no_attribute ty name =
     [CHR 0x27] @ ty @ [CHR 0x27] @ '' object has no attribute '' @ [CHR 0x27] @ name
       @ [CHR 0x27]"

section \<open>Strings, sets and sorting\<close>

text \<open>\<open>sep.join(xs)\<close>; \<open>a in b\<close> on strings is \<open>sublist a b\<close>.\<close>

fun join :: "string \<Rightarrow> string list \<Rightarrow> string" where
  "join sep [] = []"
| "join sep [x] = x"
| "join sep (x # y # ys) = x @ sep @ join sep (y # ys)"

text \<open>
  \<open>list(set(xs))\<close>: the distinct elements of \<open>xs\<close> in the order the interpreter gives
  them. An order that is not a listing of these elements is not used.
\<close>

definition list_of_set :: "env \<Rightarrow> string list \<Rightarrow> string list" where
  "list_of_set env xs =
     (let ys = set_order env xs
      in if distinct ys \<and> set ys = set xs then ys else remdups xs)"

text \<open>
  \<open>xs.sort(key=key, reverse=True)\<close>. When no key is NaN the keys are totally ordered
  and the result is the stable sort by descending key: the library's stable insertion
  sort on \<open>desc_key\<close>, which reverses the order of the floats. When a key is NaN the
  comparisons are inconsistent and the result is the permutation of \<open>xs\<close> that the
  interpreter's algorithm happens to produce, taken from \<open>sort_order_nan\<close>; an order that
  is not a permutation of the positions is not used.
\<close>

fun desc_key :: "pyfloat \<Rightarrow> int \<times> real" where
  "desc_key PosInf = (- 1, 0)"
| "desc_key (Finite x) = (0, - x)"
| "desc_key NegInf = (1, 0)"
| "desc_key NaN = (2, 0)"

definition sort_reverse :: "env \<Rightarrow> ('a \<Rightarrow> pyfloat) \<Rightarrow> 'a list \<Rightarrow> 'a list" where
  "sort_reverse env key xs =
     (if NaN \<in> set (map key xs)
      then (let p = sort_order_nan env (map key xs)
            in if sort p = [0..<length xs] then map (\<lambda>i. xs ! i) p else xs)
      else sort_key (\<lambda>x. desc_key (key x)) xs)"

subsection \<open>The three regular expressions\<close>

text \<open>
  \<open>re.findall(p, s)\<close> for a pattern with one group scans \<open>s\<close> from the left; where the
  pattern matches it records the group and goes on after the match, elsewhere it moves
  one character on. A matcher returns the group and the text after the match.
  The delimiters of the three patterns are ASCII, so scanning the bytes of the UTF-8
  text finds the matches of scanning its characters. The patterns never match the
  empty string; the last branch, one character on after an empty match, is there for
  totality.
\<close>

function findall :: "(string \<Rightarrow> (string \<times> string) option) \<Rightarrow> string \<Rightarrow> string list" where
  "findall m s =
     (if s = [] then []
      else case m s of
             None \<Rightarrow> findall m (tl s)
           | Some (g, r) \<Rightarrow>
               if length r < length s then g # findall m r else g # findall m (tl s))"
  by pat_completeness auto
termination
  by (relation "measure (\<lambda>(m, s). length s)") auto

text \<open>
  \<open>(.*?)close\<close>: the shortest run of admissible characters before \<open>close\<close>. Without
  \<open>re.DOTALL\<close> the dot does not match a newline.
\<close>

fun lazy_until :: "string \<Rightarrow> bool \<Rightarrow> string \<Rightarrow> (string \<times> string) option" where
  "lazy_until close dotall [] = (if close = [] then Some ([], []) else None)"
| "lazy_until close dotall (c # cs) =
     (if prefix close (c # cs) then Some ([], drop (length close) (c # cs))
      else if \<not> dotall \<and> c = CHR 0x0A then None
      else map_option (\<lambda>(g, r). (c # g, r)) (lazy_until close dotall cs))"

text \<open>\<open>r'<em>(.*?)</em>'\<close>\<close>

definition match_em :: "string \<Rightarrow> (string \<times> string) option" where
  "match_em s = (if prefix ''<em>'' s then lazy_until ''</em>'' False (drop 4 s) else None)"

text \<open>\<open>r'<json>(.*?)</json>'\<close> with \<open>re.DOTALL\<close>\<close>

definition match_json_tag :: "string \<Rightarrow> (string \<times> string) option" where
  "match_json_tag s =
     (if prefix ''<json>'' s then lazy_until ''</json>'' True (drop 6 s) else None)"

text \<open>
  \<open>r'```json\s*(.*?)\s*```'\<close> with \<open>re.DOTALL\<close>: after the opening fence and its white
  space, the group is the shortest text after which white space and a closing fence
  follow.
\<close>

definition fence :: string where
  "fence = [CHR 0x60, CHR 0x60, CHR 0x60]"

fun lazy_until_fence :: "env \<Rightarrow> string \<Rightarrow> (string \<times> string) option" where
  "lazy_until_fence env [] = None"
| "lazy_until_fence env (c # cs) =
     (if prefix fence (re_skip_space env (c # cs))
      then Some ([], drop 3 (re_skip_space env (c # cs)))
      else map_option (\<lambda>(g, r). (c # g, r)) (lazy_until_fence env cs))"

definition match_json_fence :: "env \<Rightarrow> string \<Rightarrow> (string \<times> string) option" where
  "match_json_fence env s =
     (if prefix (fence @ ''json'') s
      then lazy_until_fence env (re_skip_space env (drop 7 s)) else None)"

section \<open>Matched keywords (main.py)\<close>

text \<open>
  \<open>extract_matched_keywords\<close>: every \<open><em>\<close> group of every fragment of every field,
  then \<open>list(set(matched))\<close>.
\<close>

definition extract_matched_keywords ::
  "env \<Rightarrow> (string \<times> string list) list \<Rightarrow> string list" where
  "extract_matched_keywords env highlight =
     list_of_set env
       (fold (\<lambda>(field, highlights) matched.
                fold (\<lambda>highlight_text matched. matched @ findall match_em highlight_text)
                     highlights matched)
             highlight [])"

definition keyword_in_source :: "env \<Rightarrow> string \<Rightarrow> hit_source \<Rightarrow> bool" where
  "keyword_in_source env keyword hs =
     (sublist (str_lower env keyword) (str_lower env (src_title hs)) \<or>
      sublist (str_lower env keyword)
        (str_lower env
           (join '' '' (case src_keywords hs of None \<Rightarrow> [] | Some ks \<Rightarrow> ks))) \<or>
      sublist (str_lower env keyword) (str_lower env (src_abstract hs)))"

definition find_matched_keywords :: "env \<Rightarrow> string list \<Rightarrow> hit_source \<Rightarrow> string list" where
  "find_matched_keywords env keywords hs =
     fold (\<lambda>keyword matched.
             if keyword_in_source env keyword hs then matched @ [keyword] else matched)
          keywords []"

section \<open>The relevance gate (main.py, evaluate\_relevance)\<close>

definition reason_not_enabled :: string where
  "reason_not_enabled =
     [CHR 0xE6, CHR 0x9C, CHR 0xAA, CHR 0xE5, CHR 0x90, CHR 0xAF, CHR 0xE7, CHR 0x94, CHR 0xA8]
     @ ''LLM'' @ [CHR 0xE8, CHR 0xAF, CHR 0x84, CHR 0xE4, CHR 0xBC, CHR 0xB0]"

definition reason_no_api :: string where
  "reason_no_api =
     [CHR 0xE6, CHR 0x9C, CHR 0xAA, CHR 0xE9, CHR 0x85, CHR 0x8D, CHR 0xE7, CHR 0xBD, CHR 0xAE]
     @ ''OpenAI API''"

definition reason_no_json :: string where
  "reason_no_json =
     ''JSON'' @ [CHR 0xE5, CHR 0x86, CHR 0x85, CHR 0xE5, CHR 0xAE, CHR 0xB9, CHR 0xE8, CHR 0xA7,
       CHR 0xA3, CHR 0xE6, CHR 0x9E, CHR 0x90, CHR 0xE5, CHR 0xA4, CHR 0xB1, CHR 0xE8, CHR 0xB4,
       CHR 0xA5]"

definition reason_default :: string where
  "reason_default =
     [CHR 0xE8, CHR 0xA7, CHR 0xA3, CHR 0xE6, CHR 0x9E, CHR 0x90, CHR 0xE8, CHR 0xAF, CHR 0x84,
      CHR 0xE4, CHR 0xBC, CHR 0xB0, CHR 0xE5, CHR 0x8E, CHR 0x9F, CHR 0xE5, CHR 0x9B, CHR 0xA0,
      CHR 0xE5, CHR 0xA4, CHR 0xB1, CHR 0xE8, CHR 0xB4, CHR 0xA5]"

definition reason_json_decode :: string where
  "reason_json_decode =
     ''JSON'' @ [CHR 0xE8, CHR 0xA7, CHR 0xA3, CHR 0xE6, CHR 0x9E, CHR 0x90, CHR 0xE5, CHR 0xA4,
       CHR 0xB1, CHR 0xE8, CHR 0xB4, CHR 0xA5]"

definition reason_error :: "string \<Rightarrow> string" where
  "reason_error msg =
     [CHR 0xE8, CHR 0xAF, CHR 0x84, CHR 0xE4, CHR 0xBC, CHR 0xB0, CHR 0xE5, CHR 0x87, CHR 0xBA,
      CHR 0xE9, CHR 0x94, CHR 0x99] @ '': '' @ msg"

text \<open>
  The loop over \<open>json_patterns\<close>: the first pattern with a match gives
  \<open>matches[0].strip()\<close>, and the loop stops there.
\<close>

definition find_json_str :: "env \<Rightarrow> string \<Rightarrow> string option" where
  "find_json_str env result =
     (case findall match_json_tag result of
        g # _ \<Rightarrow> Some (str_strip env g)
      | [] \<Rightarrow> (case findall (match_json_fence env) result of
                 g # _ \<Rightarrow> Some (str_strip env g)
               | [] \<Rightarrow> None))"

text \<open>
  \<open>evaluate_relevance\<close> is declared to return \<open>Tuple[bool, str]\<close>; from the decoded
  answer it returns the values of \<open>is_relevant\<close> and \<open>reason\<close> as they are, of whatever
  type. A decoded answer that is not a dict has no \<open>get\<close>: the \<open>AttributeError\<close> is caught
  by the outer handler.
\<close>

definition evaluate_relevance :: "env \<Rightarrow> string \<Rightarrow> string \<Rightarrow> bool \<Rightarrow> json \<times> json" where
  "evaluate_relevance env query_text text enable_llm =
     (if \<not> enable_llm then (JBool True, JString reason_not_enabled)
      else if openai_api_key env = [] then (JBool True, JString reason_no_api)
      else case chat_completion env query_text text of
             Inl e \<Rightarrow> (JBool True, JString (reason_error (str e)))
           | Inr content \<Rightarrow>
               (case find_json_str env (str_strip env content) of
                  None \<Rightarrow> (JBool True, JString reason_no_json)
                | Some json_str \<Rightarrow>
                    if json_str = [] then (JBool True, JString reason_no_json)
                    else (case json_loads env json_str of
                            None \<Rightarrow> (JBool True, JString reason_json_decode)
                          | Some (JObject kvs) \<Rightarrow>
                              (dict_get kvs ''is_relevant'' (JBool True),
                               dict_get kvs ''reason'' (JString reason_default))
                          | Some v \<Rightarrow>
                              (JBool True,
                               JString (reason_error
                                          (has_no_attribute (type_name v) ''get''))))))"

section \<open>Reranking (utils/rerank.py, main.py)\<close>

text \<open>\<open>results.sort(key=lambda x: x.score, reverse=True)\<close>\<close>

definition sort_by_score :: "env \<Rightarrow> SearchResult list \<Rightarrow> SearchResult list" where
  "sort_by_score env rs = sort_reverse env score rs"

text \<open>
  \<open>BGEReranker.rerank\<close> (with \<open>top_k=None\<close>): the scores of the endpoint are zipped with
  the passages, and the pairs are sorted by descending score before they are returned.
  Every exception inside gives the empty list.
\<close>

definition rerank ::
  "env \<Rightarrow> (string \<Rightarrow> string list \<Rightarrow> error + rerank_body) \<Rightarrow> string \<Rightarrow> string list
     \<Rightarrow> (string \<times> pyfloat) list" where
  "rerank env invoke_endpoint query_text passages =
     (if passages = [] then []
      else case invoke_endpoint query_text passages of
             Inl e \<Rightarrow> []
           | Inr Rerank_other \<Rightarrow> []
           | Inr (Rerank_data items) \<Rightarrow>
               (case those items of
                  None \<Rightarrow> []
                | Some scores \<Rightarrow> sort_reverse env snd (zip passages scores)))"

text \<open>
  \<open>_rerank_results\<close>: \<open>results[i].score = rerank_result['score']\<close> for each position
  \<open>i\<close> of the reranker's list that exists in \<open>results\<close>, then the sort; an empty list
  from the reranker leaves \<open>results\<close> as they are.
\<close>

definition overwrite_scores ::
  "(string \<times> pyfloat) list \<Rightarrow> SearchResult list \<Rightarrow> SearchResult list" where
  "overwrite_scores reranked rs =
     fold (\<lambda>(i, rerank_result) rs.
             if i < length rs then rs[i := (rs ! i)\<lparr>score := snd rerank_result\<rparr>] else rs)
          (enumerate 0 reranked) rs"

definition rerank_results ::
  "env \<Rightarrow> (string \<Rightarrow> string list \<Rightarrow> error + rerank_body) \<Rightarrow> string \<Rightarrow> SearchResult list
     \<Rightarrow> SearchResult list" where
  "rerank_results env invoke_endpoint query_text rs =
     (let titles = map title rs;
          reranked = rerank env invoke_endpoint query_text titles
      in if reranked \<noteq> [] then sort_by_score env (overwrite_scores reranked rs) else rs)"

text \<open>\<open>if settings.ENABLE_RERANK and self.reranker and results\<close>\<close>

definition rerank_if_enabled :: "env \<Rightarrow> string \<Rightarrow> SearchResult list \<Rightarrow> SearchResult list" where
  "rerank_if_enabled env query_text rs =
     (case reranker env of
        Some invoke_endpoint \<Rightarrow>
          if ENABLE_RERANK env \<and> rs \<noteq> []
          then rerank_results env invoke_endpoint query_text rs
          else rs
      | None \<Rightarrow> rs)"

section \<open>The three strategies and the entry point (main.py)\<close>

definition none_has_no_attribute :: "string \<Rightarrow> error" where
  "none_has_no_attribute name = Exception (has_no_attribute ''NoneType'' name)"

text \<open>\<open>self.opensearch_client.search(index=settings.OPENSEARCH_INDEX_NAME, body=..., params=...)\<close>\<close>

definition opensearch_search ::
  "env \<Rightarrow> search_body \<Rightarrow> (string \<times> string) list \<Rightarrow> error + engine_response" where
  "opensearch_search env body params =
     (case opensearch_client env of
        None \<Rightarrow> Inl (none_has_no_attribute ''search'')
      | Some client_search \<Rightarrow> client_search (OPENSEARCH_INDEX_NAME env) body params)"

text \<open>\<open>self.embedder.get_embeddings(text)[0].tolist()\<close>\<close>

definition get_embedding :: "env \<Rightarrow> string \<Rightarrow> error + pyfloat list" where
  "get_embedding env text =
     (case embedder env of
        None \<Rightarrow> Inl (none_has_no_attribute ''get_embeddings'')
      | Some get_embeddings \<Rightarrow> get_embeddings text)"

text \<open>The result built from a hit of the keyword and of the hybrid strategy.\<close>

definition lexical_result :: "env \<Rightarrow> string \<Rightarrow> string list \<Rightarrow> hit \<Rightarrow> SearchResult" where
  "lexical_result env source_name query_terms h =
     (let matched = find_matched_keywords env query_terms (h_source h);
          highlight_matched =
            extract_matched_keywords env
              (case h_highlight h of None \<Rightarrow> [] | Some hl \<Rightarrow> hl)
      in \<lparr>id' = src_id (h_source h),
          title = src_title (h_source h),
          keywords' = (case src_keywords (h_source h) of None \<Rightarrow> [] | Some ks \<Rightarrow> ks),
          abstract = src_abstract (h_source h),
          score = h_score h,
          source = Some source_name,
          matched_keywords = Some (matched @ highlight_matched),
          relevance_reason = None\<rparr>)"

text \<open>
  The result built from a hit that the relevance gate let through, with the gate's
  reason. \<open>SearchResult\<close> is a pydantic model and \<open>relevance_reason\<close> is declared
  \<open>Optional[str]\<close>: a string or \<open>None\<close> is stored, any other value fails the validation
  (pydantic 2, which \<open>utils/settings.py\<close> requires, does not convert to strings), and
  the constructor raises.
\<close>

definition validation_error :: error where
  "validation_error = Exception ''1 validation error for SearchResult''"

definition vector_result_with :: "hit \<Rightarrow> string option \<Rightarrow> SearchResult" where
  "vector_result_with h reason =
     \<lparr>id' = src_id (h_source h),
      title = src_title (h_source h),
      keywords' = (case src_keywords (h_source h) of None \<Rightarrow> [] | Some ks \<Rightarrow> ks),
      abstract = src_abstract (h_source h),
      score = h_score h,
      source = Some ''vector'',
      matched_keywords = None,
      relevance_reason = reason\<rparr>"

definition vector_result :: "hit \<Rightarrow> json \<Rightarrow> error + SearchResult" where
  "vector_result h reason =
     (case reason of
        JString s \<Rightarrow> Inr (vector_result_with h (Some s))
      | JNull \<Rightarrow> Inr (vector_result_with h None)
      | _ \<Rightarrow> Inl validation_error)"

text \<open>The f-string of the evaluated text: a title label, the title, a newline, an
  abstract label, the abstract.\<close>

definition eval_text :: "hit \<Rightarrow> string" where
  "eval_text h =
     [CHR 0xE6, CHR 0xA0, CHR 0x87, CHR 0xE9, CHR 0xA2, CHR 0x98, CHR 0xEF, CHR 0xBC, CHR 0x9A]
     @ src_title (h_source h)
     @ [CHR 0x0A, CHR 0xE6, CHR 0x91, CHR 0x98, CHR 0xE8, CHR 0xA6, CHR 0x81, CHR 0xEF, CHR 0xBC,
        CHR 0x9A]
     @ src_abstract (h_source h)"

text \<open>
  The loop of \<open>_vector_search\<close> over the hits: the gate's verdict is tested for its
  truth value; an exception of the constructor ends the loop.
\<close>

fun vector_hits_loop ::
  "env \<Rightarrow> string \<Rightarrow> bool \<Rightarrow> hit list \<Rightarrow> SearchResult list \<Rightarrow> error + SearchResult list" where
  "vector_hits_loop env query_text enable_llm [] rs = Inr rs"
| "vector_hits_loop env query_text enable_llm (h # hs) rs =
     (case evaluate_relevance env query_text (eval_text h) enable_llm of
        (is_relevant, reason) \<Rightarrow>
          if truthy is_relevant
          then (case vector_result h reason of
                  Inl e \<Rightarrow> Inl e
                | Inr r \<Rightarrow> vector_hits_loop env query_text enable_llm hs (rs @ [r]))
          else vector_hits_loop env query_text enable_llm hs rs)"

text \<open>
  The loop of \<open>_supplement_with_vector_search\<close>:
  \<open>if hit['_source']['id'] not in seen_ids and hit['_score'] >= 0.1\<close>, then as above.
\<close>

fun supplement_hits_loop ::
  "env \<Rightarrow> string \<Rightarrow> bool \<Rightarrow> string set \<Rightarrow> hit list \<Rightarrow> SearchResult list
     \<Rightarrow> error + SearchResult list" where
  "supplement_hits_loop env query_text enable_llm seen_ids [] vs = Inr vs"
| "supplement_hits_loop env query_text enable_llm seen_ids (h # hs) vs =
     (if src_id (h_source h) \<notin> seen_ids \<and> float_ge (h_score h) (Finite 0.1)
      then (case evaluate_relevance env query_text (eval_text h) enable_llm of
              (is_relevant, reason) \<Rightarrow>
                if truthy is_relevant
                then (case vector_result h reason of
                        Inl e \<Rightarrow> Inl e
                      | Inr r \<Rightarrow>
                          supplement_hits_loop env query_text enable_llm seen_ids hs (vs @ [r]))
                else supplement_hits_loop env query_text enable_llm seen_ids hs vs)
      else supplement_hits_loop env query_text enable_llm seen_ids hs vs)"

text \<open>The block that hands the response to the cache, the same in the three strategies.\<close>

definition save_to_cache ::
  "env \<Rightarrow> string \<Rightarrow> SearchRequest \<Rightarrow> SearchResponse \<Rightarrow> error + SearchResponse" where
  "save_to_cache env query_text request search_response =
     (case cache env of
        None \<Rightarrow> Inr search_response
      | Some save_search_result \<Rightarrow>
          (case save_search_result query_text (searchType request) search_response
                  (enableLlm request) of
             Inl e \<Rightarrow> Inl e
           | Inr None \<Rightarrow> Inr search_response
           | Inr (Some sid) \<Rightarrow>
               if sid \<noteq> [] then Inr (search_response\<lparr>search_id := Some sid\<rparr>)
               else Inr search_response))"

definition embedder_unavailable_hybrid :: error where
  "embedder_unavailable_hybrid = Exception
     [CHR 0xE5, CHR 0xB5, CHR 0x8C, CHR 0xE5, CHR 0x85, CHR 0xA5, CHR 0xE6, CHR 0x9C, CHR 0x8D,
      CHR 0xE5, CHR 0x8A, CHR 0xA1, CHR 0xE4, CHR 0xB8, CHR 0x8D, CHR 0xE5, CHR 0x8F, CHR 0xAF,
      CHR 0xE7, CHR 0x94, CHR 0xA8, CHR 0xEF, CHR 0xBC, CHR 0x8C, CHR 0xE6, CHR 0x97, CHR 0xA0,
      CHR 0xE6, CHR 0xB3, CHR 0x95, CHR 0xE6, CHR 0x89, CHR 0xA7, CHR 0xE8, CHR 0xA1, CHR 0x8C,
      CHR 0xE6, CHR 0xB7, CHR 0xB7, CHR 0xE5, CHR 0x90, CHR 0x88, CHR 0xE6, CHR 0x90, CHR 0x9C,
      CHR 0xE7, CHR 0xB4, CHR 0xA2]"

definition embedder_unavailable_vector :: error where
  "embedder_unavailable_vector = Exception
     [CHR 0xE5, CHR 0xB5, CHR 0x8C, CHR 0xE5, CHR 0x85, CHR 0xA5, CHR 0xE6, CHR 0x9C, CHR 0x8D,
      CHR 0xE5, CHR 0x8A, CHR 0xA1, CHR 0xE4, CHR 0xB8, CHR 0x8D, CHR 0xE5, CHR 0x8F, CHR 0xAF,
      CHR 0xE7, CHR 0x94, CHR 0xA8, CHR 0xEF, CHR 0xBC, CHR 0x8C, CHR 0xE6, CHR 0x97, CHR 0xA0,
      CHR 0xE6, CHR 0xB3, CHR 0x95, CHR 0xE6, CHR 0x89, CHR 0xA7, CHR 0xE8, CHR 0xA1, CHR 0x8C,
      CHR 0xE5, CHR 0x90, CHR 0x91, CHR 0xE9, CHR 0x87, CHR 0x8F, CHR 0xE6, CHR 0x90, CHR 0x9C,
      CHR 0xE7, CHR 0xB4, CHR 0xA2]"

definition opensearch_unavailable :: error where
  "opensearch_unavailable = Exception
     (''OpenSearch'' @
      [CHR 0xE6, CHR 0x9C, CHR 0x8D, CHR 0xE5, CHR 0x8A, CHR 0xA1, CHR 0xE4, CHR 0xB8, CHR 0x8D,
       CHR 0xE5, CHR 0x8F, CHR 0xAF, CHR 0xE7, CHR 0x94, CHR 0xA8, CHR 0xEF, CHR 0xBC, CHR 0x8C,
       CHR 0xE8, CHR 0xAF, CHR 0xB7, CHR 0xE6, CHR 0xA3, CHR 0x80, CHR 0xE6, CHR 0x9F, CHR 0xA5,
       CHR 0xE9, CHR 0x85, CHR 0x8D, CHR 0xE7, CHR 0xBD, CHR 0xAE])"

subsection \<open>\_hybrid\_search\<close>

definition hybrid_search ::
  "env \<Rightarrow> string \<Rightarrow> string list \<Rightarrow> SearchRequest \<Rightarrow> error + SearchResponse" where
  "hybrid_search env query_text query_terms request =
     (if embedder env = None then Inl embedder_unavailable_hybrid
      else case get_embedding env query_text of
        Inl e \<Rightarrow> Inl e
      | Inr query_embedding \<Rightarrow>
          (case opensearch_search env
                  (build_hybrid_search_query query_terms query_embedding
                     (page request) (pageSize request))
                  [(''search_pipeline'', ''nlp-search-pipeline'')] of
             Inl e \<Rightarrow> Inl e
           | Inr response \<Rightarrow>
               (let rs = fold (\<lambda>h rs. rs @ [lexical_result env ''hybrid'' query_terms h])
                              (hits response) [];
                    rs = rerank_if_enabled env query_text rs
                in save_to_cache env query_text request
                     \<lparr>total = total_value response,
                      results = rs,
                      response_searchType = searchType request,
                      rewrittenTerms = Some query_terms,
                      search_id = None\<rparr>)))"

subsection \<open>\_vector\_search\<close>

definition vector_search ::
  "env \<Rightarrow> string \<Rightarrow> string list \<Rightarrow> SearchRequest \<Rightarrow> error + SearchResponse" where
  "vector_search env query_text query_terms request =
     (if embedder env = None then Inl embedder_unavailable_vector
      else case get_embedding env query_text of
        Inl e \<Rightarrow> Inl e
      | Inr query_embedding \<Rightarrow>
          (case opensearch_search env
                  (build_vector_search_query query_embedding query_terms
                     (page request) (pageSize request)) [] of
             Inl e \<Rightarrow> Inl e
           | Inr response \<Rightarrow>
               (case vector_hits_loop env query_text (enableLlm request) (hits response) [] of
                  Inl e \<Rightarrow> Inl e
                | Inr rs \<Rightarrow>
                    save_to_cache env query_text request
                      \<lparr>total = int (length rs),
                       results = rs,
                       response_searchType = searchType request,
                       rewrittenTerms = Some query_terms,
                       search_id = None\<rparr>)))"

subsection \<open>\_supplement\_with\_vector\_search\<close>

definition supplement_query ::
  "pyfloat list \<Rightarrow> string list \<Rightarrow> string set \<Rightarrow> int \<Rightarrow> search_body" where
  "supplement_query query_embedding query_terms seen_ids remaining_size =
     \<lparr>body_from = None,
      body_size = remaining_size,
      body_query = Bool_must_knn (Knn query_embedding remaining_size)
                     (must_not_queries [Terms_id seen_ids] query_terms),
      body_source = source_fields,
      body_highlight = None\<rparr>"

definition supplement_with_vector_search ::
  "env \<Rightarrow> string \<Rightarrow> string list \<Rightarrow> SearchResult list \<Rightarrow> string set \<Rightarrow> SearchRequest
     \<Rightarrow> error + SearchResult list" where
  "supplement_with_vector_search env query_text query_terms rs seen_ids request =
     (let remaining_size = 10000 - int (length rs);
          combined_query = join '' '' ([query_text] @ query_terms)
      in case get_embedding env combined_query of
           Inl e \<Rightarrow> Inl e
         | Inr query_embedding \<Rightarrow>
             (case opensearch_search env
                     (supplement_query query_embedding query_terms seen_ids remaining_size) [] of
                Inl e \<Rightarrow> Inl e
              | Inr vector_response \<Rightarrow>
                  (case supplement_hits_loop env query_text (enableLlm request) seen_ids
                          (hits vector_response) [] of
                     Inl e \<Rightarrow> Inl e
                   | Inr vector_results \<Rightarrow> Inr (sort_by_score env (rs @ vector_results)))))"

subsection \<open>\_keyword\_search\<close>

definition keyword_search ::
  "env \<Rightarrow> string \<Rightarrow> string list \<Rightarrow> SearchRequest \<Rightarrow> error + SearchResponse" where
  "keyword_search env query_text query_terms request =
     (case opensearch_search env
             (build_keyword_search_query query_terms (page request) (pageSize request)) [] of
        Inl e \<Rightarrow> Inl e
      | Inr response \<Rightarrow>
          (case fold (\<lambda>h (rs, seen_ids).
                        (rs @ [lexical_result env ''keyword'' query_terms h],
                         insert (src_id (h_source h)) seen_ids))
                     (hits response) ([], {}) of
             (rs, seen_ids) \<Rightarrow>
               (case (if length rs < 10000 \<and> embedder env \<noteq> None
                      then supplement_with_vector_search env query_text query_terms rs
                             seen_ids request
                      else Inr rs) of
                  Inl e \<Rightarrow> Inl e
                | Inr rs \<Rightarrow>
                    (let rs = rerank_if_enabled env query_text rs
                     in save_to_cache env query_text request
                          \<lparr>total = int (length rs),
                           results = rs,
                           response_searchType = searchType request,
                           rewrittenTerms = Some query_terms,
                           search_id = None\<rparr>))))"

subsection \<open>search\<close>

definition empty_response :: "SearchRequest \<Rightarrow> SearchResponse" where
  "empty_response request =
     \<lparr>total = 0,
      results = [],
      response_searchType = searchType request,
      rewrittenTerms = None,
      search_id = None\<rparr>"

text \<open>The body of the \<open>try\<close> block of \<open>search\<close>: \<open>Inl\<close> is an exception leaving it.\<close>

definition search_try :: "env \<Rightarrow> SearchRequest \<Rightarrow> error + SearchResponse" where
  "search_try env request =
     (if opensearch_client env = None then Inl opensearch_unavailable
      else
        let query_text = (case unquote env (query request) of
                            Inl e \<Rightarrow> query request
                          | Inr q \<Rightarrow> q)
        in if query_text = [] then Inr (empty_response request)
           else case expand_query env query_text of
                  Inl e \<Rightarrow> Inl e
                | Inr query_terms \<Rightarrow>
                    if searchType request = ''hybrid''
                    then hybrid_search env query_text query_terms request
                    else if searchType request = ''vector''
                    then vector_search env query_text query_terms request
                    else keyword_search env query_text query_terms request)"

text \<open>\<open>search\<close>: the \<open>except Exception\<close> handler turns every exception into the empty
  response.\<close>

definition search :: "env \<Rightarrow> SearchRequest \<Rightarrow> SearchResponse" where
  "search env request =
     (case search_try env request of
        Inr response \<Rightarrow> response
      | Inl e \<Rightarrow> empty_response request)"

section \<open>Notions used in the statements\<close>

text \<open>A list of scores is non-increasing: each score is \<open>>=\<close> every later one.\<close>

definition non_increasing :: "pyfloat list \<Rightarrow> bool" where
  "non_increasing xs = sorted_wrt (\<lambda>a b. float_ge a b) xs"

text \<open>The verdict of the relevance gate on a hit, as the loops test it.\<close>

definition relevant :: "env \<Rightarrow> string \<Rightarrow> bool \<Rightarrow> hit \<Rightarrow> bool" where
  "relevant env query_text enable_llm h =
     truthy (fst (evaluate_relevance env query_text (eval_text h) enable_llm))"

text \<open>The reason the gate gives for a hit, whether the constructor accepts it, and the
  result built from the hit with it.\<close>

definition gate_reason :: "env \<Rightarrow> string \<Rightarrow> bool \<Rightarrow> hit \<Rightarrow> json" where
  "gate_reason env query_text enable_llm h =
     snd (evaluate_relevance env query_text (eval_text h) enable_llm)"

fun reason_accepted :: "json \<Rightarrow> bool" where
  "reason_accepted (JString s) = True"
| "reason_accepted JNull = True"
| "reason_accepted v = False"

fun reason_field :: "json \<Rightarrow> string option" where
  "reason_field (JString s) = Some s"
| "reason_field v = None"

definition gated_result :: "env \<Rightarrow> string \<Rightarrow> bool \<Rightarrow> hit \<Rightarrow> SearchResult" where
  "gated_result env query_text enable_llm h =
     vector_result_with h (reason_field (gate_reason env query_text enable_llm h))"

text \<open>The ids of a list of hits, as the keyword loop collects them in \<open>seen_ids\<close>.\<close>

definition hit_ids :: "hit list \<Rightarrow> string set" where
  "hit_ids hs = set (map (\<lambda>h. src_id (h_source h)) hs)"

text \<open>The candidates of the supplementing vector query that survive the loop: id not
  seen, score at least 0.1, judged relevant.\<close>

definition survives :: "env \<Rightarrow> string \<Rightarrow> bool \<Rightarrow> string set \<Rightarrow> hit \<Rightarrow> bool" where
  "survives env query_text enable_llm seen_ids h =
     (src_id (h_source h) \<notin> seen_ids \<and> float_ge (h_score h) (Finite 0.1) \<and>
      relevant env query_text enable_llm h)"

definition survivors :: "env \<Rightarrow> string \<Rightarrow> bool \<Rightarrow> string set \<Rightarrow> hit list \<Rightarrow> hit list" where
  "survivors env query_text enable_llm seen_ids hs =
     filter (survives env query_text enable_llm seen_ids) hs"


text \<open>Every answer of the engine lists its hits by non-increasing score.\<close>

definition engine_sorted :: "env \<Rightarrow> bool" where
  "engine_sorted env =
     (\<forall>client index_name body params er.
        opensearch_client env = Some client \<longrightarrow>
        client index_name body params = Inr er \<longrightarrow>
        non_increasing (map h_score (hits er)))"

text \<open>No score of the engine and no score of the rerank endpoint is NaN.\<close>

definition engine_numeric :: "env \<Rightarrow> bool" where
  "engine_numeric env =
     (\<forall>client index_name body params er.
        opensearch_client env = Some client \<longrightarrow>
        client index_name body params = Inr er \<longrightarrow>
        NaN \<notin> set (map h_score (hits er)))"

definition reranker_numeric :: "env \<Rightarrow> bool" where
  "reranker_numeric env =
     (\<forall>invoke_endpoint query_text passages items.
        reranker env = Some invoke_endpoint \<longrightarrow>
        invoke_endpoint query_text passages = Inr (Rerank_data items) \<longrightarrow>
        Some NaN \<notin> set items)"

text \<open>The marks of a result built from a keyword hit, and of one built from a
  supplementing vector hit.\<close>

definition from_keyword :: "SearchResult \<Rightarrow> bool" where
  "from_keyword r =
     (source r = Some ''keyword'' \<and> matched_keywords r \<noteq> None \<and> relevance_reason r = None)"

definition from_vector :: "SearchResult \<Rightarrow> bool" where
  "from_vector r = (source r = Some ''vector'' \<and> matched_keywords r = None)"

section \<open>A small index, used to run the definitions\<close>

text \<open>
  The library's string functions on ASCII text, which is all the examples contain:
  \<open>str.lower\<close> maps the capitals, \<open>str.strip\<close> and \<open>\s\<close> take the white space that
  \<open>str.isspace\<close> accepts below U+0080.
\<close>

definition lower_char :: "char \<Rightarrow> char" where
  "lower_char c =
     (case map_of (zip ''ABCDEFGHIJKLMNOPQRSTUVWXYZ'' ''abcdefghijklmnopqrstuvwxyz'') c of
        Some l \<Rightarrow> l
      | None \<Rightarrow> c)"

definition ascii_lower :: "string \<Rightarrow> string" where
  "ascii_lower s = map lower_char s"

definition is_space :: "char \<Rightarrow> bool" where
  "is_space c =
     (c \<in> set [CHR 0x09, CHR 0x0A, CHR 0x0B, CHR 0x0C, CHR 0x0D,
                CHR 0x1C, CHR 0x1D, CHR 0x1E, CHR 0x1F, CHR 0x20])"

definition ascii_strip :: "string \<Rightarrow> string" where
  "ascii_strip s = rev (dropWhile is_space (rev (dropWhile is_space s)))"

definition ascii_skip_space :: "string \<Rightarrow> string" where
  "ascii_skip_space s = dropWhile is_space s"

definition hit_a :: hit where
  "hit_a = \<lparr>h_source = \<lparr>src_id = ''1'', src_title = ''glaucoma study'',
                          src_keywords = Some [''eye''], src_abstract = ''a study''\<rparr>,
            h_score = Finite 2.5,
            h_highlight = Some [(''title'', [''<em>glaucoma</em> study''])]\<rparr>"

definition hit_b :: hit where
  "hit_b = \<lparr>h_source = \<lparr>src_id = ''2'', src_title = ''optic nerve'',
                          src_keywords = None, src_abstract = ''pressure''\<rparr>,
            h_score = Finite 0.6,
            h_highlight = None\<rparr>"

definition hit_c :: hit where
  "hit_c = \<lparr>h_source = \<lparr>src_id = ''3'', src_title = ''retina'',
                          src_keywords = None, src_abstract = ''imaging''\<rparr>,
            h_score = Finite 0.05,
            h_highlight = None\<rparr>"

text \<open>An engine that answers a keyword body with \<open>hit_a\<close>, a vector body with \<open>hit_b\<close>
  and \<open>hit_c\<close>, and reports 57 matching documents.\<close>

definition example_client ::
  "string \<Rightarrow> search_body \<Rightarrow> (string \<times> string) list \<Rightarrow> error + engine_response" where
  "example_client index_name body params =
     (case body_query body of
        Bool_should cs m \<Rightarrow> Inr \<lparr>hits = [hit_a], total_value = 57\<rparr>
      | Bool_must_knn k cs \<Rightarrow> Inr \<lparr>hits = [hit_b, hit_c], total_value = 57\<rparr>
      | Knn_query k \<Rightarrow> Inr \<lparr>hits = [hit_a, hit_b], total_value = 57\<rparr>
      | Hybrid qs \<Rightarrow> Inr \<lparr>hits = [hit_a, hit_b], total_value = 57\<rparr>)"

text \<open>
  In the example environment a list with a NaN key is left as it is by the sort; that
  is what \<open>list.sort\<close> does to the two-element lists of the examples, where every
  comparison with the NaN is false.
\<close>

definition example_env :: env where
  "example_env =
     \<lparr>opensearch_client = Some example_client,
      embedder = Some (\<lambda>text. Inr [Finite 0.1, Finite 0.2]),
      reranker = None,
      cache = None,
      ENABLE_RERANK = True,
      OPENSEARCH_INDEX_NAME = ''papers'',
      openai_api_key = [],
      chat_completion = (\<lambda>q t. Inl (Exception ''no service'')),
      json_loads = (\<lambda>s. None),
      unquote = Inr,
      expand_query = (\<lambda>q. Inr [q]),
      str_lower = ascii_lower,
      str_strip = ascii_strip,
      re_skip_space = ascii_skip_space,
      set_order = remdups,
      sort_order_nan = (\<lambda>keys. [0..<length keys])\<rparr>"

definition example_request :: "string \<Rightarrow> SearchRequest" where
  "example_request search_type =
     \<lparr>query = ''glaucoma'', page = 1, pageSize = 30, searchType = search_type,
      enableLlm = False\<rparr>"

text \<open>An environment with an LLM credential, whose chat completion gives \<open>answer\<close> and
  whose JSON decoder gives \<open>parsed\<close>.\<close>

definition llm_env :: "(error + string) \<Rightarrow> json option \<Rightarrow> env" where
  "llm_env answer parsed =
     example_env\<lparr>openai_api_key := ''sk'',
                 chat_completion := (\<lambda>q t. answer),
                 json_loads := (\<lambda>s. parsed)\<rparr>"

text \<open>An environment whose LLM judges a text that mentions \<open>optic\<close> irrelevant and
  every other text relevant.\<close>

definition gate_env :: env where
  "gate_env =
     example_env\<lparr>openai_api_key := ''sk'',
                 chat_completion := (\<lambda>q t. if sublist ''optic'' t then Inr ''<json>no</json>''
                                          else Inr ''<json>yes</json>''),
                 json_loads := (\<lambda>s. if s = ''no''
                                      then Some (JObject [(''is_relevant'', JBool False),
                                                          (''reason'', JString ''off topic'')])
                                      else Some (JObject [(''is_relevant'', JBool True),
                                                          (''reason'', JString ''on topic'')]))\<rparr>"

text \<open>
  An LLM whose answer to every text is the JSON object with \<open>is_relevant\<close> true and
  \<open>reason\<close> null inside the \<open>json\<close> tags, and one whose answer is the object with
  \<open>is_relevant\<close> null; the decoder decodes these two texts and no other.
\<close>

definition quoted :: "string \<Rightarrow> string" where
  "quoted s = [CHR 0x22] @ s @ [CHR 0x22]"

definition null_reason_json :: string where
  "null_reason_json =
     ''{'' @ quoted ''is_relevant'' @ '': true, '' @ quoted ''reason'' @ '': null}''"

definition null_verdict_json :: string where
  "null_verdict_json = ''{'' @ quoted ''is_relevant'' @ '': null}''"

definition example_loads :: "string \<Rightarrow> json option" where
  "example_loads s =
     (if s = null_reason_json
      then Some (JObject [(''is_relevant'', JBool True), (''reason'', JNull)])
      else if s = null_verdict_json
      then Some (JObject [(''is_relevant'', JNull)])
      else None)"

definition null_reason_answer :: string where
  "null_reason_answer = ''<json>'' @ null_reason_json @ ''</json>''"

definition null_verdict_answer :: string where
  "null_verdict_answer = ''ok <json> '' @ null_verdict_json @ '' </json> ''"

definition null_reason_env :: env where
  "null_reason_env =
     example_env\<lparr>openai_api_key := ''sk'',
                 chat_completion := (\<lambda>q t. Inr null_reason_answer),
                 json_loads := example_loads\<rparr>"

definition null_verdict_env :: env where
  "null_verdict_env =
     example_env\<lparr>openai_api_key := ''sk'',
                 chat_completion := (\<lambda>q t. Inr null_verdict_answer),
                 json_loads := example_loads\<rparr>"

text \<open>A rerank endpoint that scores the passage \<open>optic nerve\<close> 0.9 and every other
  passage 0.2, in the order of the passages it is given; and the example environment
  with this reranker.\<close>

definition example_endpoint :: "string \<Rightarrow> string list \<Rightarrow> error + rerank_body" where
  "example_endpoint query_text passages =
     Inr (Rerank_data
            (map (\<lambda>p. if p = ''optic nerve'' then Some (Finite 0.9) else Some (Finite 0.2))
               passages))"

definition rerank_env :: env where
  "rerank_env = example_env\<lparr>reranker := Some example_endpoint\<rparr>"

text \<open>A rerank endpoint that scores the passage \<open>optic nerve\<close> 0.9 and answers NaN for
  every other passage; and the example environment with this reranker.\<close>

definition nan_endpoint :: "string \<Rightarrow> string list \<Rightarrow> error + rerank_body" where
  "nan_endpoint query_text passages =
     Inr (Rerank_data
            (map (\<lambda>p. if p = ''optic nerve'' then Some (Finite 0.9) else Some NaN) passages))"

definition nan_rerank_env :: env where
  "nan_rerank_env = example_env\<lparr>reranker := Some nan_endpoint\<rparr>"

text \<open>An engine whose keyword hit has the score NaN, and one whose vector answer starts
  with a hit that outscores the keyword hit.\<close>

definition hit_n :: hit where
  "hit_n = \<lparr>h_source = \<lparr>src_id = ''4'', src_title = ''cornea'',
                          src_keywords = None, src_abstract = ''glaucoma surgery''\<rparr>,
            h_score = NaN,
            h_highlight = None\<rparr>"

definition hit_d :: hit where
  "hit_d = \<lparr>h_source = \<lparr>src_id = ''5'', src_title = ''intraocular pressure'',
                          src_keywords = None, src_abstract = ''a trial''\<rparr>,
            h_score = Finite 3.5,
            h_highlight = None\<rparr>"



definition reorder_client ::
  "string \<Rightarrow> search_body \<Rightarrow> (string \<times> string) list \<Rightarrow> error + engine_response" where
  "reorder_client index_name body params =
     (case body_query body of
        Bool_should cs m \<Rightarrow> Inr \<lparr>hits = [hit_a], total_value = 1\<rparr>
      | Bool_must_knn k cs \<Rightarrow> Inr \<lparr>hits = [hit_d, hit_b, hit_c], total_value = 3\<rparr>
      | Knn_query k \<Rightarrow> Inr \<lparr>hits = [], total_value = 0\<rparr>
      | Hybrid qs \<Rightarrow> Inr \<lparr>hits = [], total_value = 0\<rparr>)"

definition reorder_env :: env where
  "reorder_env = example_env\<lparr>opensearch_client := Some reorder_client\<rparr>"

section \<open>Properties of the builders\<close>

lemma fold_append_concat:
  "fold (\<lambda>k acc. acc @ f k) ks init = init @ concat (map f ks)"
  by (induction ks arbitrary: init) simp_all

lemma should_queries_concat:
  "should_queries query_terms = concat (map boosted_clauses query_terms)"
  by (simp add: should_queries_def fold_append_concat)


lemma length_concat_three:
  "(\<And>k. length (f k) = 3) \<Longrightarrow> length (concat (map f ks)) = 3 * length ks"
  by (induction ks) simp_all

lemma length_should_queries: "length (should_queries query_terms) = 3 * length query_terms"
  by (simp add: should_queries_concat length_concat_three boosted_clauses_def)

text \<open>
  C9. The keyword query builder depends on nothing but its three arguments, so equal
  arguments give equal descriptors. For \<open>n\<close> expanded terms the \<open>should\<close> list holds exactly
  \<open>3 * n\<close> phrase clauses, for each term in order one on title (boost 5), one on keywords
  (boost 10) and one on abstract (boost 2); \<open>minimum_should_match\<close> is 1, \<open>from\<close> is
  \<open>(page - 1) * pageSize\<close>, \<open>size\<close> is \<open>pageSize\<close>, and highlighting is requested on title,
  abstract and keywords.
\<close>

theorem build_keyword_search_query_shape:
  "(terms1 = terms2 \<and> page1 = page2 \<and> size1 = size2 \<longrightarrow>
      build_keyword_search_query terms1 page1 size1 =
      build_keyword_search_query terms2 page2 size2) \<and>
   body_from (build_keyword_search_query terms1 page1 size1) = Some ((page1 - 1) * size1) \<and>
   body_size (build_keyword_search_query terms1 page1 size1) = size1 \<and>
   body_query (build_keyword_search_query terms1 page1 size1) =
     Bool_should
       (concat (map (\<lambda>t. [Match_phrase_boost ''title'' t 5,
                           Match_phrase_boost ''keywords'' t 10,
                           Match_phrase_boost ''abstract'' t 2]) terms1)) 1 \<and>
   (\<exists>cs. body_query (build_keyword_search_query terms1 page1 size1) = Bool_should cs 1 \<and>
         length cs = 3 * length terms1) \<and>
   body_highlight (build_keyword_search_query terms1 page1 size1) =
     Some [''title'', ''abstract'', ''keywords'']"
proof -
  let ?d = "build_keyword_search_query terms1 page1 size1"
  have q: "body_query ?d = Bool_should (should_queries terms1) 1"
    by (simp add: build_keyword_search_query_def)
  have c: "should_queries terms1 =
      concat (map (\<lambda>t. [Match_phrase_boost ''title'' t 5,
                          Match_phrase_boost ''keywords'' t 10,
                          Match_phrase_boost ''abstract'' t 2]) terms1)"
  proof -
    have "boosted_clauses = (\<lambda>t. [Match_phrase_boost ''title'' t 5,
                          Match_phrase_boost ''keywords'' t 10,
                          Match_phrase_boost ''abstract'' t 2])"
      by (rule ext) (simp add: boosted_clauses_def)
    then show ?thesis by (simp add: should_queries_concat)
  qed
  have n: "\<exists>cs. body_query ?d = Bool_should cs 1 \<and> length cs = 3 * length terms1"
    using q length_should_queries by blast
  have f: "body_from ?d = Some ((page1 - 1) * size1)" "body_size ?d = size1"
    "body_highlight ?d = Some [''title'', ''abstract'', ''keywords'']"
    by (simp_all add: build_keyword_search_query_def highlight_fields_def)
  show ?thesis using q c n f by simp
qed

text \<open>
  The spec's example: the terms \<open>glaucoma\<close>, its Chinese name (9 UTF-8 bytes) and \<open>GLC\<close>,
  page 1, page size 30, give 9 clauses.
\<close>

theorem build_keyword_search_query_shape_witness:
  "\<exists>cs. body_query (build_keyword_search_query
            [''glaucoma'',
             [CHR 0xE9, CHR 0x9D, CHR 0x92, CHR 0xE5, CHR 0x85, CHR 0x89, CHR 0xE7, CHR 0x9C, CHR 0xBC],
             ''GLC''] 1 30) = Bool_should cs 1 \<and> length cs = 9"
  using build_keyword_search_query_shape
    [of "[''glaucoma'',
          [CHR 0xE9, CHR 0x9D, CHR 0x92, CHR 0xE5, CHR 0x85, CHR 0x89, CHR 0xE7, CHR 0x9C, CHR 0xBC],
          ''GLC'']" "[]" 1 1 30 30]
  by simp

section \<open>The loops as maps and filters\<close>

lemma fold_snoc_map: "fold (\<lambda>x acc. acc @ [f x]) xs init = init @ map f xs"
  by (induction xs arbitrary: init) simp_all

lemma fold_snoc_filter:
  "fold (\<lambda>x acc. if P x then acc @ [f x] else acc) xs init = init @ map f (filter P xs)"
  by (induction xs arbitrary: init) simp_all

lemma find_matched_keywords_filter:
  "find_matched_keywords env ks hs = filter (\<lambda>k. keyword_in_source env k hs) ks"
  using fold_snoc_filter [of "\<lambda>k. keyword_in_source env k hs" "\<lambda>k. k" ks "[]"]
  by (simp add: find_matched_keywords_def)

lemma lexical_loop:
  "fold (\<lambda>h rs. rs @ [lexical_result env nm ts h]) hs [] = map (lexical_result env nm ts) hs"
  by (simp add: fold_snoc_map)

lemma keyword_loop_gen:
  "fold (\<lambda>h (rs, seen_ids).
           (rs @ [lexical_result env nm ts h], insert (src_id (h_source h)) seen_ids))
        hs (init, seen)
   = (init @ map (lexical_result env nm ts) hs, seen \<union> hit_ids hs)"
  by (induction hs arbitrary: init seen) (simp_all add: hit_ids_def)

lemma keyword_loop:
  "fold (\<lambda>h (rs, seen_ids).
           (rs @ [lexical_result env nm ts h], insert (src_id (h_source h)) seen_ids))
        hs ([], {})
   = (map (lexical_result env nm ts) hs, hit_ids hs)"
  by (simp add: keyword_loop_gen)

text \<open>The constructor accepts a reason exactly when it is a string or \<open>None\<close>, and then
  builds the result with that reason.\<close>

lemma vector_result_accepted:
  "reason_accepted v \<Longrightarrow> vector_result h v = Inr (vector_result_with h (reason_field v))"
  by (cases v) (simp_all add: vector_result_def)


lemma vector_result_Inr:
  "vector_result h v = Inr r \<Longrightarrow> reason_accepted v \<and> r = vector_result_with h (reason_field v)"
  by (cases v) (simp_all add: vector_result_def)

text \<open>One round of each loop, in terms of the gate's verdict and reason.\<close>

lemma vector_hits_loop_Cons:
  "vector_hits_loop env q b (h # hs) rs =
     (if relevant env q b h
      then (case vector_result h (gate_reason env q b h) of
              Inl e \<Rightarrow> Inl e
            | Inr r \<Rightarrow> vector_hits_loop env q b hs (rs @ [r]))
      else vector_hits_loop env q b hs rs)"
  by (simp add: relevant_def gate_reason_def split: prod.splits)

lemma supplement_hits_loop_Cons:
  "supplement_hits_loop env q b seen (h # hs) vs =
     (if survives env q b seen h
      then (case vector_result h (gate_reason env q b h) of
              Inl e \<Rightarrow> Inl e
            | Inr r \<Rightarrow> supplement_hits_loop env q b seen hs (vs @ [r]))
      else supplement_hits_loop env q b seen hs vs)"
  by (simp add: survives_def relevant_def gate_reason_def split: prod.splits)

lemma survivors_Cons:
  "survivors env q b seen (h # hs) =
     (if survives env q b seen h
      then h # survivors env q b seen hs else survivors env q b seen hs)"
  by (simp add: survivors_def)

lemma survivors_Nil: "survivors env q b seen [] = []"
  by (simp add: survivors_def)

text \<open>When the loop of the vector strategy returns, it has appended the results of the
  relevant hits, in order, and every relevant hit had an acceptable reason; and
  conversely.\<close>

lemma vector_hits_loop_Inr:
  "vector_hits_loop env q b hs rs = Inr out \<Longrightarrow>
     out = rs @ map (gated_result env q b) (filter (relevant env q b) hs) \<and>
     (\<forall>h\<in>set hs. relevant env q b h \<longrightarrow> reason_accepted (gate_reason env q b h))"
proof (induction hs arbitrary: rs)
  case Nil
  then show ?case by simp
next
  case (Cons h hs)
  show ?case
  proof (cases "relevant env q b h")
    case False
    then have "vector_hits_loop env q b hs rs = Inr out"
      using Cons.prems by (simp add: vector_hits_loop_Cons del: vector_hits_loop.simps supplement_hits_loop.simps)
    then show ?thesis
      using Cons.IH [of rs] False by simp
  next
    case True
    then have c: "(case vector_result h (gate_reason env q b h) of
              Inl e \<Rightarrow> Inl e
            | Inr r \<Rightarrow> vector_hits_loop env q b hs (rs @ [r])) = Inr out"
      using Cons.prems by (simp add: vector_hits_loop_Cons del: vector_hits_loop.simps supplement_hits_loop.simps)
    then obtain r where r: "vector_result h (gate_reason env q b h) = Inr r"
      and l: "vector_hits_loop env q b hs (rs @ [r]) = Inr out"
      by (cases "vector_result h (gate_reason env q b h)") simp_all
    have "r = gated_result env q b h" "reason_accepted (gate_reason env q b h)"
      using vector_result_Inr [OF r] by (simp_all add: gated_result_def)
    then show ?thesis
      using Cons.IH [OF l] True by simp
  qed
qed

lemma vector_hits_loop_accepted:
  "(\<forall>h\<in>set hs. relevant env q b h \<longrightarrow> reason_accepted (gate_reason env q b h)) \<Longrightarrow>
     vector_hits_loop env q b hs rs =
       Inr (rs @ map (gated_result env q b) (filter (relevant env q b) hs))"
proof (induction hs arbitrary: rs)
  case Nil
  then show ?case by simp
next
  case (Cons h hs)
  have ih: "\<And>rs. vector_hits_loop env q b hs rs =
       Inr (rs @ map (gated_result env q b) (filter (relevant env q b) hs))"
    using Cons by simp
  show ?case
  proof (cases "relevant env q b h")
    case False
    then show ?thesis
      by (simp add: vector_hits_loop_Cons ih del: vector_hits_loop.simps supplement_hits_loop.simps)
  next
    case True
    then have "reason_accepted (gate_reason env q b h)"
      using Cons.prems by simp
    then have "vector_result h (gate_reason env q b h) = Inr (gated_result env q b h)"
      by (simp add: vector_result_accepted gated_result_def)
    then show ?thesis
      using True by (simp add: vector_hits_loop_Cons ih del: vector_hits_loop.simps supplement_hits_loop.simps)
  qed
qed

lemma supplement_hits_loop_Inr:
  "supplement_hits_loop env q b seen hs vs = Inr out \<Longrightarrow>
     out = vs @ map (gated_result env q b) (survivors env q b seen hs) \<and>
     (\<forall>h\<in>set (survivors env q b seen hs). reason_accepted (gate_reason env q b h))"
proof (induction hs arbitrary: vs)
  case Nil
  then show ?case by (simp add: survivors_Nil)
next
  case (Cons h hs)
  show ?case
  proof (cases "survives env q b seen h")
    case False
    then have "supplement_hits_loop env q b seen hs vs = Inr out"
      using Cons.prems by (simp add: supplement_hits_loop_Cons del: vector_hits_loop.simps supplement_hits_loop.simps)
    then show ?thesis
      using Cons.IH [of vs] False by (simp add: survivors_Cons)
  next
    case True
    then have c: "(case vector_result h (gate_reason env q b h) of
              Inl e \<Rightarrow> Inl e
            | Inr r \<Rightarrow> supplement_hits_loop env q b seen hs (vs @ [r])) = Inr out"
      using Cons.prems by (simp add: supplement_hits_loop_Cons del: vector_hits_loop.simps supplement_hits_loop.simps)
    then obtain r where r: "vector_result h (gate_reason env q b h) = Inr r"
      and l: "supplement_hits_loop env q b seen hs (vs @ [r]) = Inr out"
      by (cases "vector_result h (gate_reason env q b h)") simp_all
    have "r = gated_result env q b h" "reason_accepted (gate_reason env q b h)"
      using vector_result_Inr [OF r] by (simp_all add: gated_result_def)
    then show ?thesis
      using Cons.IH [OF l] True by (simp add: survivors_Cons)
  qed
qed

lemma supplement_hits_loop_accepted:
  "(\<forall>h\<in>set (survivors env q b seen hs). reason_accepted (gate_reason env q b h)) \<Longrightarrow>
     supplement_hits_loop env q b seen hs vs =
       Inr (vs @ map (gated_result env q b) (survivors env q b seen hs))"
proof (induction hs arbitrary: vs)
  case Nil
  then show ?case by (simp add: survivors_Nil)
next
  case (Cons h hs)
  show ?case
  proof (cases "survives env q b seen h")
    case False
    then have s: "survivors env q b seen (h # hs) = survivors env q b seen hs"
      by (simp add: survivors_Cons)
    then have "supplement_hits_loop env q b seen hs vs =
       Inr (vs @ map (gated_result env q b) (survivors env q b seen hs))"
      using Cons by simp
    then show ?thesis
      using False by (simp add: supplement_hits_loop_Cons s del: vector_hits_loop.simps supplement_hits_loop.simps)
  next
    case True
    then have s: "survivors env q b seen (h # hs) = h # survivors env q b seen hs"
      by (simp add: survivors_Cons)
    then have a: "reason_accepted (gate_reason env q b h)"
      and ih: "\<And>vs. supplement_hits_loop env q b seen hs vs =
       Inr (vs @ map (gated_result env q b) (survivors env q b seen hs))"
      using Cons by simp_all
    have "vector_result h (gate_reason env q b h) = Inr (gated_result env q b h)"
      using a by (simp add: vector_result_accepted gated_result_def)
    then show ?thesis
      using True by (simp add: supplement_hits_loop_Cons s ih del: vector_hits_loop.simps supplement_hits_loop.simps)
  qed
qed

text \<open>With the gate disabled every hit is relevant and its reason is the fixed string.\<close>

lemma relevant_disabled: "relevant env q False h"
  by (simp add: relevant_def evaluate_relevance_def)

lemma gate_reason_disabled: "gate_reason env q False h = JString reason_not_enabled"
  by (simp add: gate_reason_def evaluate_relevance_def)

lemma gated_result_disabled:
  "gated_result env q False h = vector_result_with h (Some reason_not_enabled)"
  by (simp add: gated_result_def gate_reason_disabled)

section \<open>Sorting by descending score\<close>

lemma desc_key_le:
  "a \<noteq> NaN \<Longrightarrow> b \<noteq> NaN \<Longrightarrow> (desc_key a \<le> desc_key b) = float_ge a b"
  by (cases a; cases b) simp_all

lemma float_ge_not_NaN: "float_ge a b \<Longrightarrow> a \<noteq> NaN \<and> b \<noteq> NaN"
  by (cases a; cases b) simp_all

text \<open>The sort returns a permutation of its argument, whatever the keys.\<close>

lemma mset_sort_reverse: "mset (sort_reverse env key xs) = mset xs"
proof (cases "NaN \<in> set (map key xs)")
  case False
  then show ?thesis by (simp add: sort_reverse_def)
next
  case True
  show ?thesis
  proof (cases "sort (sort_order_nan env (map key xs)) = [0..<length xs]")
    case False
    then show ?thesis using True by (simp add: sort_reverse_def Let_def)
  next
    case p: True
    have "mset (sort_order_nan env (map key xs)) = mset [0..<length xs]"
      using p by (metis mset_sort)
    then have "mset (map (\<lambda>i. xs ! i) (sort_order_nan env (map key xs))) =
               mset (map (\<lambda>i. xs ! i) [0..<length xs])"
      by (metis mset_map)
    then have "mset (map (\<lambda>i. xs ! i) (sort_order_nan env (map key xs))) = mset xs"
      by (simp add: map_nth)
    then show ?thesis
      using True p by (simp add: sort_reverse_def Let_def)
  qed
qed


lemma sorted_wrt_sort_reverse:
  assumes "NaN \<notin> set (map key xs)"
  shows "sorted_wrt (\<lambda>a b. float_ge (key a) (key b)) (sort_reverse env key xs)"
proof -
  let ?ys = "sort_key (\<lambda>x. desc_key (key x)) xs"
  have "sorted (map (\<lambda>x. desc_key (key x)) ?ys)"
    by (rule sorted_sort_key)
  then have s: "sorted_wrt (\<lambda>a b. desc_key (key a) \<le> desc_key (key b)) ?ys"
    by (simp add: sorted_wrt_map)
  have n: "\<And>a. a \<in> set ?ys \<Longrightarrow> key a \<noteq> NaN"
    using assms by (force simp add: image_iff)
  have "sorted_wrt (\<lambda>a b. float_ge (key a) (key b)) ?ys"
  proof (rule sorted_wrt_mono_rel [OF _ s])
    fix a b
    assume "a \<in> set ?ys" "b \<in> set ?ys" "desc_key (key a) \<le> desc_key (key b)"
    then show "float_ge (key a) (key b)"
      using n desc_key_le by blast
  qed
  then show ?thesis
    using assms by (simp add: sort_reverse_def)
qed

lemma mset_sort_by_score: "mset (sort_by_score env rs) = mset rs"
  by (simp add: sort_by_score_def mset_sort_reverse)

lemma set_sort_by_score: "set (sort_by_score env rs) = set rs"
  by (metis mset_sort_by_score set_mset_mset)

lemma length_sort_by_score: "length (sort_by_score env rs) = length rs"
  by (metis mset_sort_by_score size_mset)

lemma sort_by_score_sorted:
  "NaN \<notin> set (map score rs) \<Longrightarrow> non_increasing (map score (sort_by_score env rs))"
  using sorted_wrt_sort_reverse [of score rs env]
  by (simp add: sort_by_score_def non_increasing_def sorted_wrt_map)

lemma sort_by_score_numeric:
  "NaN \<notin> set (map score rs) \<Longrightarrow> NaN \<notin> set (map score (sort_by_score env rs))"
  by (simp add: set_sort_by_score)

section \<open>Reranking changes scores and order only\<close>

lemma map_update_same: "n < length rs \<Longrightarrow> (map f rs)[n := f (rs ! n)] = map f rs"
  by (simp add: list_eq_iff_nth_eq nth_list_update)

lemma overwrite_map_gen:
  assumes "\<And>r s. f (r\<lparr>score := s\<rparr>) = f r"
  shows "map f (fold (\<lambda>(i, rerank_result) rs.
             if i < length rs then rs[i := (rs ! i)\<lparr>score := snd rerank_result\<rparr>] else rs)
          (enumerate n reranked) rs) = map f rs"
proof (induction reranked arbitrary: n rs)
  case Nil
  then show ?case by simp
next
  case (Cons a reranked)
  show ?case
    by (simp add: Cons.IH map_update assms map_update_same)
qed

lemma overwrite_scores_map:
  "(\<And>r s. f (r\<lparr>score := s\<rparr>) = f r) \<Longrightarrow> map f (overwrite_scores reranked rs) = map f rs"
  unfolding overwrite_scores_def by (rule overwrite_map_gen)

text \<open>The scores after the overwriting are old scores or scores of the reranker.\<close>

lemma overwrite_scores_gen:
  "score ` set (fold (\<lambda>(i, rerank_result) rs.
             if i < length rs then rs[i := (rs ! i)\<lparr>score := snd rerank_result\<rparr>] else rs)
          (enumerate n reranked) rs)
   \<subseteq> score ` set rs \<union> snd ` set reranked"
proof (induction reranked arbitrary: n rs)
  case Nil
  then show ?case by simp
next
  case (Cons a reranked)
  let ?F = "\<lambda>(i, rerank_result) rs.
             if i < length rs then rs[i := (rs ! i)\<lparr>score := snd rerank_result\<rparr>] else rs"
  show ?case
  proof (cases "n < length rs")
    case False
    then have "fold ?F (enumerate n (a # reranked)) rs = fold ?F (enumerate (Suc n) reranked) rs"
      by simp
    moreover have "score ` set (fold ?F (enumerate (Suc n) reranked) rs)
        \<subseteq> score ` set rs \<union> snd ` set reranked"
      by (rule Cons.IH)
    ultimately show ?thesis
      by (simp only: set_simps image_insert) blast
  next
    case True
    let ?rs = "rs[n := (rs ! n)\<lparr>score := snd a\<rparr>]"
    have "set ?rs \<subseteq> insert ((rs ! n)\<lparr>score := snd a\<rparr>) (set rs)"
      by (rule set_update_subset_insert)
    then have u: "score ` set ?rs \<subseteq> insert (snd a) (score ` set rs)"
      by auto
    have "fold ?F (enumerate n (a # reranked)) rs = fold ?F (enumerate (Suc n) reranked) ?rs"
      using True by simp
    moreover have "score ` set (fold ?F (enumerate (Suc n) reranked) ?rs)
        \<subseteq> score ` set ?rs \<union> snd ` set reranked"
      by (rule Cons.IH)
    ultimately show ?thesis
      using u by (simp only: set_simps image_insert) blast
  qed
qed

lemma overwrite_scores_scores:
  "set (map score (overwrite_scores reranked rs)) \<subseteq> set (map score rs) \<union> snd ` set reranked"
  unfolding overwrite_scores_def set_map by (rule overwrite_scores_gen)

lemma rerank_results_unfold:
  "rerank_results env ep q rs =
     (if rerank env ep q (map title rs) \<noteq> []
      then sort_by_score env (overwrite_scores (rerank env ep q (map title rs)) rs) else rs)"
  by (simp add: rerank_results_def Let_def)

text \<open>The scores the reranker returns are scores of the endpoint's answer.\<close>

lemma rerank_scores:
  assumes "\<And>items. ep q ps = Inr (Rerank_data items) \<Longrightarrow> Some NaN \<notin> set items"
  shows "NaN \<notin> snd ` set (rerank env ep q ps)"
proof (cases "ps = []")
  case True
  then show ?thesis by (simp add: rerank_def)
next
  case False
  show ?thesis
  proof (cases "ep q ps")
    case (Inl e)
    then show ?thesis using False by (simp add: rerank_def)
  next
    case (Inr body)
    show ?thesis
    proof (cases body)
      case Rerank_other
      then show ?thesis using False Inr by (simp add: rerank_def)
    next
      case (Rerank_data items)
      show ?thesis
      proof (cases "those items")
        case None
        then show ?thesis using False Inr Rerank_data by (simp add: rerank_def)
      next
        case (Some scores)
        have "map Some scores = items"
          using Some
        proof (induction items arbitrary: scores)
          case Nil
          then show ?case by simp
        next
          case (Cons a items)
          then show ?case
            by (cases a; cases "those items") auto
        qed
        moreover have "Some NaN \<notin> set items"
          using assms Inr Rerank_data by simp
        ultimately have n: "NaN \<notin> set scores"
          by auto
        have "set (rerank env ep q ps) = set (zip ps scores)"
          using False Inr Rerank_data Some
          by (simp add: rerank_def) (metis mset_sort_reverse set_mset_mset)
        then have "snd ` set (rerank env ep q ps) \<subseteq> set scores"
          by (auto dest: set_zip_rightD)
        then show ?thesis using n by blast
      qed
    qed
  qed
qed

lemma rerank_results_numeric:
  assumes "\<And>ps items. ep q ps = Inr (Rerank_data items) \<Longrightarrow> Some NaN \<notin> set items"
    and "NaN \<notin> set (map score rs)"
  shows "NaN \<notin> set (map score (rerank_results env ep q rs))"
proof (cases "rerank env ep q (map title rs) = []")
  case True
  then show ?thesis using assms(2) by (simp add: rerank_results_unfold)
next
  case False
  have "NaN \<notin> snd ` set (rerank env ep q (map title rs))"
    using assms(1) by (rule rerank_scores)
  then have "NaN \<notin> set (map score (overwrite_scores (rerank env ep q (map title rs)) rs))"
    using overwrite_scores_scores [of "rerank env ep q (map title rs)" rs] assms(2) by blast
  then show ?thesis
    using False by (simp add: rerank_results_unfold set_sort_by_score)
qed

lemma rerank_results_sorted:
  assumes "\<And>ps items. ep q ps = Inr (Rerank_data items) \<Longrightarrow> Some NaN \<notin> set items"
    and "NaN \<notin> set (map score rs)"
    and "non_increasing (map score rs)"
  shows "non_increasing (map score (rerank_results env ep q rs))"
proof (cases "rerank env ep q (map title rs) = []")
  case True
  then show ?thesis using assms(3) by (simp add: rerank_results_unfold)
next
  case False
  have "NaN \<notin> snd ` set (rerank env ep q (map title rs))"
    using assms(1) by (rule rerank_scores)
  then have "NaN \<notin> set (map score (overwrite_scores (rerank env ep q (map title rs)) rs))"
    using overwrite_scores_scores [of "rerank env ep q (map title rs)" rs] assms(2) by blast
  then have "non_increasing
      (map score (sort_by_score env (overwrite_scores (rerank env ep q (map title rs)) rs)))"
    by (rule sort_by_score_sorted)
  then show ?thesis
    using False by (simp add: rerank_results_unfold)
qed

lemma rerank_results_erased:
  assumes "\<And>r s. f (r\<lparr>score := s\<rparr>) = f r"
  shows "mset (map f (rerank_results env ep q rs)) = mset (map f rs)"
proof (cases "rerank env ep q (map title rs) = []")
  case True
  then show ?thesis by (simp add: rerank_results_unfold)
next
  case False
  have "mset (map f (sort_by_score env (overwrite_scores (rerank env ep q (map title rs)) rs)))
        = image_mset f
            (mset (sort_by_score env (overwrite_scores (rerank env ep q (map title rs)) rs)))"
    by simp
  also have "\<dots> = image_mset f (mset (overwrite_scores (rerank env ep q (map title rs)) rs))"
    by (simp only: mset_sort_by_score)
  also have "\<dots> = mset (map f (overwrite_scores (rerank env ep q (map title rs)) rs))"
    by simp
  also have "\<dots> = mset (map f rs)"
    using overwrite_scores_map [of f, OF assms] by simp
  finally show ?thesis using False by (simp add: rerank_results_unfold)
qed

lemma rerank_if_enabled_cases:
  "rerank_if_enabled env q rs = rs \<or>
   (\<exists>ep. reranker env = Some ep \<and> rerank_if_enabled env q rs = rerank_results env ep q rs)"
  by (auto simp add: rerank_if_enabled_def split: option.splits)

lemma rerank_if_enabled_sorted:
  assumes "reranker_numeric env" "NaN \<notin> set (map score rs)" "non_increasing (map score rs)"
  shows "non_increasing (map score (rerank_if_enabled env q rs))"
proof -
  consider "rerank_if_enabled env q rs = rs"
    | ep where "reranker env = Some ep"
        "rerank_if_enabled env q rs = rerank_results env ep q rs"
    using rerank_if_enabled_cases by blast
  then show ?thesis
  proof cases
    case 1
    then show ?thesis using assms(3) by simp
  next
    case 2
    have "\<And>ps items. ep q ps = Inr (Rerank_data items) \<Longrightarrow> Some NaN \<notin> set items"
      using assms(1) 2(1) by (auto simp add: reranker_numeric_def)
    then have "non_increasing (map score (rerank_results env ep q rs))"
      using assms(2,3) by (rule rerank_results_sorted)
    then show ?thesis using 2(2) by simp
  qed
qed

lemma rerank_if_enabled_erased:
  assumes "\<And>r s. f (r\<lparr>score := s\<rparr>) = f r"
  shows "mset (map f (rerank_if_enabled env q rs)) = mset (map f rs)"
proof -
  consider "rerank_if_enabled env q rs = rs"
    | ep where "rerank_if_enabled env q rs = rerank_results env ep q rs"
    using rerank_if_enabled_cases by blast
  then show ?thesis
  proof cases
    case 1
    then show ?thesis by simp
  next
    case 2
    then show ?thesis using rerank_results_erased [of f, OF assms] by simp
  qed
qed

lemma rerank_if_enabled_length: "length (rerank_if_enabled env q rs) = length rs"
  using rerank_if_enabled_erased [of "\<lambda>r. ()" env q rs]
  by (metis length_map size_mset)


lemma rerank_if_enabled_pred:
  assumes "\<And>r s. P (r\<lparr>score := s\<rparr>) = P r" and "\<forall>r\<in>set rs. P r"
  shows "\<forall>r\<in>set (rerank_if_enabled env q rs). P r"
proof -
  have "mset (map P (rerank_if_enabled env q rs)) = mset (map P rs)"
    using assms(1) by (rule rerank_if_enabled_erased)
  then have "set (map P (rerank_if_enabled env q rs)) = set (map P rs)"
    by (metis set_mset_mset)
  then show ?thesis using assms(2) by auto
qed

section \<open>The entry point absorbs every failure\<close>

lemma search_try_no_client:
  "opensearch_client env = None \<Longrightarrow> search_try env request = Inl opensearch_unavailable"
  by (simp add: search_try_def)

lemma search_no_embedder:
  assumes "embedder env = None"
    and "searchType request = ''vector'' \<or> searchType request = ''hybrid''"
  shows "search env request = empty_response request"
  using assms
  by (auto simp add: search_def search_try_def Let_def vector_search_def hybrid_search_def
      split: sum.splits)

lemma search_engine_fails:
  assumes "opensearch_client env = Some client" "\<And>i b p. isl (client i b p)"
  shows "search env request = empty_response request"
proof -
  have os: "\<And>b p r. opensearch_search env b p \<noteq> Inr r"
  proof
    fix b p r
    assume a: "opensearch_search env b p = Inr r"
    have "isl (client (OPENSEARCH_INDEX_NAME env) b p)" by (rule assms(2))
    then show False using a assms(1) by (simp add: opensearch_search_def)
  qed
  have h: "\<And>q ts. isl (hybrid_search env q ts request)"
    using os by (auto simp add: hybrid_search_def split: sum.splits)
  have v: "\<And>q ts. isl (vector_search env q ts request)"
    using os by (auto simp add: vector_search_def split: sum.splits)
  have k: "\<And>q ts. isl (keyword_search env q ts request)"
    using os by (auto simp add: keyword_search_def split: sum.splits)
  have "search_try env request = Inr (empty_response request) \<or> isl (search_try env request)"
    using h v k by (simp add: search_try_def Let_def split: sum.splits)
  then show ?thesis
    by (auto simp add: search_def isl_def)
qed

lemma search_expansion_fails:
  assumes "\<And>q. isl (expand_query env q)"
  shows "search env request = empty_response request"
proof -
  have "\<And>q ts. expand_query env q \<noteq> Inr ts"
  proof
    fix q ts
    assume a: "expand_query env q = Inr ts"
    have "isl (expand_query env q)" by (rule assms)
    then show False using a by simp
  qed
  then have "search_try env request = Inr (empty_response request) \<or> isl (search_try env request)"
    by (simp add: search_try_def Let_def split: sum.splits)
  then show ?thesis
    by (auto simp add: search_def isl_def)
qed

text \<open>
  C1. \<open>search\<close> returns a response for every environment and request. Whenever an
  exception leaves the body of its \<open>try\<close> block, the response has total 0, no results,
  the request's \<open>searchType\<close> and no rewritten terms. That is the response in particular
  when the OpenSearch client is unavailable, when the embedder is unavailable and the
  strategy is vector or hybrid, when every call of the engine raises, and when query
  expansion raises.
\<close>

theorem search_never_raises:
  "(search_try env request = Inl e \<longrightarrow>
      search env request =
        \<lparr>total = 0, results = [], response_searchType = searchType request,
         rewrittenTerms = None, search_id = None\<rparr>) \<and>
   (opensearch_client env = None \<longrightarrow>
      search env request =
        \<lparr>total = 0, results = [], response_searchType = searchType request,
         rewrittenTerms = None, search_id = None\<rparr>) \<and>
   (embedder env = None \<and> (searchType request = ''vector'' \<or> searchType request = ''hybrid'') \<longrightarrow>
      search env request =
        \<lparr>total = 0, results = [], response_searchType = searchType request,
         rewrittenTerms = None, search_id = None\<rparr>) \<and>
   (opensearch_client env = Some client \<and> (\<forall>i b p. isl (client i b p)) \<longrightarrow>
      search env request =
        \<lparr>total = 0, results = [], response_searchType = searchType request,
         rewrittenTerms = None, search_id = None\<rparr>) \<and>
   ((\<forall>q. isl (expand_query env q)) \<longrightarrow>
      search env request =
        \<lparr>total = 0, results = [], response_searchType = searchType request,
         rewrittenTerms = None, search_id = None\<rparr>)"
proof (intro conjI impI)
  assume "search_try env request = Inl e"
  then show "search env request =
        \<lparr>total = 0, results = [], response_searchType = searchType request,
         rewrittenTerms = None, search_id = None\<rparr>"
    by (simp add: search_def empty_response_def)
next
  assume "opensearch_client env = None"
  then show "search env request =
        \<lparr>total = 0, results = [], response_searchType = searchType request,
         rewrittenTerms = None, search_id = None\<rparr>"
    by (simp add: search_def search_try_no_client empty_response_def)
next
  assume "embedder env = None \<and> (searchType request = ''vector'' \<or> searchType request = ''hybrid'')"
  then show "search env request =
        \<lparr>total = 0, results = [], response_searchType = searchType request,
         rewrittenTerms = None, search_id = None\<rparr>"
    using search_no_embedder [of env request] by (simp add: empty_response_def)
next
  assume "opensearch_client env = Some client \<and> (\<forall>i b p. isl (client i b p))"
  then show "search env request =
        \<lparr>total = 0, results = [], response_searchType = searchType request,
         rewrittenTerms = None, search_id = None\<rparr>"
    using search_engine_fails [of env client request] by (simp add: empty_response_def)
next
  assume "\<forall>q. isl (expand_query env q)"
  then show "search env request =
        \<lparr>total = 0, results = [], response_searchType = searchType request,
         rewrittenTerms = None, search_id = None\<rparr>"
    using search_expansion_fails [of env request] by (simp add: empty_response_def)
qed

theorem search_never_raises_witness:
  "search_try (example_env\<lparr>embedder := None\<rparr>) (example_request ''vector'')
     = Inl embedder_unavailable_vector \<and>
   embedder (example_env\<lparr>embedder := None\<rparr>) = None \<and>
   searchType (example_request ''vector'') = ''vector'' \<and>
   opensearch_client (example_env\<lparr>opensearch_client := None\<rparr>) = None \<and>
   opensearch_client (example_env\<lparr>opensearch_client := Some (\<lambda>i b p. Inl (Exception ''down''))\<rparr>)
     = Some (\<lambda>i b p. Inl (Exception ''down'')) \<and>
   (\<forall>i b p. isl ((\<lambda>i b p. Inl (Exception ''down'') :: error + engine_response) i b p)) \<and>
   (\<forall>q. isl (expand_query (example_env\<lparr>expand_query := (\<lambda>q. Inl (Exception ''down''))\<rparr>) q)) \<and>
   search (example_env\<lparr>embedder := None\<rparr>) (example_request ''vector'') =
     \<lparr>total = 0, results = [], response_searchType = ''vector'',
      rewrittenTerms = None, search_id = None\<rparr> \<and>
   search (example_env\<lparr>opensearch_client := None\<rparr>) (example_request ''keyword'') =
     \<lparr>total = 0, results = [], response_searchType = ''keyword'',
      rewrittenTerms = None, search_id = None\<rparr> \<and>
   search (example_env\<lparr>opensearch_client := Some (\<lambda>i b p. Inl (Exception ''down''))\<rparr>)
       (example_request ''keyword'') =
     \<lparr>total = 0, results = [], response_searchType = ''keyword'',
      rewrittenTerms = None, search_id = None\<rparr> \<and>
   search (example_env\<lparr>expand_query := (\<lambda>q. Inl (Exception ''down''))\<rparr>)
       (example_request ''hybrid'') =
     \<lparr>total = 0, results = [], response_searchType = ''hybrid'',
      rewrittenTerms = None, search_id = None\<rparr>"
proof -
  have t: "search_try (example_env\<lparr>embedder := None\<rparr>) (example_request ''vector'')
     = Inl embedder_unavailable_vector"
    by (simp add: search_try_def example_env_def example_request_def vector_search_def)
  have e: "embedder (example_env\<lparr>embedder := None\<rparr>) = None"
    "searchType (example_request ''vector'') = ''vector''"
    "searchType (example_request ''keyword'') = ''keyword''"
    "searchType (example_request ''hybrid'') = ''hybrid''"
    "opensearch_client (example_env\<lparr>opensearch_client := None\<rparr>) = None"
    by (simp_all add: example_request_def)
  show ?thesis
    using t e
      search_never_raises [of "example_env\<lparr>embedder := None\<rparr>" "example_request ''vector''"
        embedder_unavailable_vector "\<lambda>i b p. Inl (Exception ''down'')"]
      search_never_raises [of "example_env\<lparr>opensearch_client := None\<rparr>"
        "example_request ''keyword''" embedder_unavailable_vector
        "\<lambda>i b p. Inl (Exception ''down'')"]
      search_never_raises [of
        "example_env\<lparr>opensearch_client := Some (\<lambda>i b p. Inl (Exception ''down''))\<rparr>"
        "example_request ''keyword''" embedder_unavailable_vector
        "\<lambda>i b p. Inl (Exception ''down'')"]
      search_never_raises [of "example_env\<lparr>expand_query := (\<lambda>q. Inl (Exception ''down''))\<rparr>"
        "example_request ''hybrid''" embedder_unavailable_vector
        "\<lambda>i b p. Inl (Exception ''down'')"]
    by simp
qed

section \<open>The empty query\<close>

text \<open>
  C8. When the query is empty after URL decoding (the decoded query is the raw one
  when decoding raises; a request's query is a string, never null), \<open>search\<close> returns
  total 0, no results, no rewritten terms and the request's \<open>searchType\<close>. With a client
  present the response is returned by the \<open>try\<close> block itself, whatever query expansion,
  the embedder, the engine and the cache would answer: no strategy is entered.
\<close>

theorem search_empty_query:
  assumes "(case unquote env (query request) of Inl e \<Rightarrow> query request | Inr q \<Rightarrow> q) = []"
  shows "search env request =
           \<lparr>total = 0, results = [], response_searchType = searchType request,
            rewrittenTerms = None, search_id = None\<rparr> \<and>
         (opensearch_client env \<noteq> None \<longrightarrow>
            search_try env request =
              Inr \<lparr>total = 0, results = [], response_searchType = searchType request,
                   rewrittenTerms = None, search_id = None\<rparr>)"
  using assms
  by (simp add: search_def search_try_def Let_def empty_response_def)

theorem search_empty_query_witness:
  "(case unquote (example_env\<lparr>unquote := (\<lambda>s. Inr []),
                    expand_query := (\<lambda>q. Inl (Exception ''down'')),
                    opensearch_client := Some (\<lambda>i b p. Inl (Exception ''down''))\<rparr>)
           (query (example_request ''hybrid'')) of
      Inl e \<Rightarrow> query (example_request ''hybrid'') | Inr q \<Rightarrow> q) = [] \<and>
   search_try (example_env\<lparr>unquote := (\<lambda>s. Inr []),
                 expand_query := (\<lambda>q. Inl (Exception ''down'')),
                 opensearch_client := Some (\<lambda>i b p. Inl (Exception ''down''))\<rparr>)
       (example_request ''hybrid'') =
     Inr \<lparr>total = 0, results = [], response_searchType = ''hybrid'',
          rewrittenTerms = None, search_id = None\<rparr>"
proof -
  have a: "(case unquote (example_env\<lparr>unquote := (\<lambda>s. Inr []),
                    expand_query := (\<lambda>q. Inl (Exception ''down'')),
                    opensearch_client := Some (\<lambda>i b p. Inl (Exception ''down''))\<rparr>)
           (query (example_request ''hybrid'')) of
      Inl e \<Rightarrow> query (example_request ''hybrid'') | Inr q \<Rightarrow> q) = []"
    by simp
  show ?thesis
    using a search_empty_query [OF a] by (simp add: example_request_def)
qed

section \<open>The relevance gate fails open\<close>

lemma llm_env_fields:
  "openai_api_key (llm_env a p) \<noteq> []" "chat_completion (llm_env a p) x y = a"
  "json_loads (llm_env a p) z = p" "str_strip (llm_env a p) = ascii_strip"
  "re_skip_space (llm_env a p) = ascii_skip_space"
  by (simp_all add: llm_env_def example_env_def)

lemma lazy_until_fence_cong:
  "re_skip_space env = re_skip_space env' \<Longrightarrow> lazy_until_fence env s = lazy_until_fence env' s"
  by (induction s) simp_all

lemma match_json_fence_cong:
  "re_skip_space env = re_skip_space env' \<Longrightarrow> match_json_fence env = match_json_fence env'"
  by (rule ext) (simp add: match_json_fence_def lazy_until_fence_cong [of env env'])

lemma find_json_str_cong:
  assumes a: "str_strip env = str_strip env'" and b: "re_skip_space env = re_skip_space env'"
  shows "find_json_str env s = find_json_str env' s"
proof -
  have m: "match_json_fence env = match_json_fence env'"
    using b by (rule match_json_fence_cong)
  show ?thesis
    unfolding find_json_str_def m a ..
qed

lemma find_json_str_ascii:
  "str_strip env = ascii_strip \<Longrightarrow> re_skip_space env = ascii_skip_space \<Longrightarrow>
     find_json_str env s = find_json_str example_env s"
  by (rule find_json_str_cong) (simp_all add: example_env_def)

lemma find_json_str_none: "find_json_str example_env (ascii_strip ''maybe'') = None"
  by code_simp

lemma find_json_str_broken:
  "find_json_str example_env (ascii_strip ''<json>{oops</json>'') = Some ''{oops''"
  by code_simp

lemma find_json_str_list:
  "find_json_str example_env (ascii_strip ''<json>[1]</json>'') = Some ''[1]''"
  by code_simp

lemma find_json_str_null_verdict:
  "find_json_str example_env (ascii_strip null_verdict_answer) = Some null_verdict_json"
  by code_simp

lemma null_verdict_env_fields:
  "openai_api_key null_verdict_env \<noteq> []"
  "chat_completion null_verdict_env x y = Inr null_verdict_answer"
  "json_loads null_verdict_env = example_loads" "str_strip null_verdict_env = ascii_strip"
  "re_skip_space null_verdict_env = ascii_skip_space"
  by (simp_all add: null_verdict_env_def example_env_def)

lemma example_loads_null_verdict:
  "example_loads null_verdict_json = Some (JObject [(''is_relevant'', JNull)])"
  by code_simp

lemma null_verdict_nonempty: "null_verdict_json \<noteq> []"
  by code_simp

text \<open>
  C7, as the code has it. Called with the gate disabled, \<open>evaluate_relevance\<close> returns
  \<open>True\<close> with the fixed reason \<open>reason_not_enabled\<close> (the source's Chinese literal for
  "LLM evaluation not enabled"), whatever the query and the text. Without an LLM
  credential its verdict is true. With the gate enabled and a credential: when the call
  raises, the result is \<open>True\<close> with the exception's message in the reason; when the
  answer holds no JSON, \<open>True\<close> with \<open>reason_no_json\<close>; when the JSON does not decode,
  \<open>True\<close> with \<open>reason_json_decode\<close>; when it decodes to a value that is not a dict,
  \<open>True\<close> with the message of the attribute error in the reason. No failure drops a
  candidate: the verdict tests false only when the gate is enabled, a credential is set,
  the call returned, and the answer decoded to a dict whose \<open>is_relevant\<close> entry is a
  value that tests false.
\<close>

theorem evaluate_relevance_fail_open:
  "evaluate_relevance env q t False = (JBool True, JString reason_not_enabled) \<and>
   (openai_api_key env = [] \<longrightarrow> fst (evaluate_relevance env q t enabled) = JBool True) \<and>
   (enabled \<and> openai_api_key env = [] \<longrightarrow>
      evaluate_relevance env q t enabled = (JBool True, JString reason_no_api)) \<and>
   (enabled \<and> openai_api_key env \<noteq> [] \<and> chat_completion env q t = Inl e \<longrightarrow>
      evaluate_relevance env q t enabled = (JBool True, JString (reason_error (str e)))) \<and>
   (enabled \<and> openai_api_key env \<noteq> [] \<and> chat_completion env q t = Inr content \<and>
    (find_json_str env (str_strip env content) = None \<or>
     find_json_str env (str_strip env content) = Some []) \<longrightarrow>
      evaluate_relevance env q t enabled = (JBool True, JString reason_no_json)) \<and>
   (enabled \<and> openai_api_key env \<noteq> [] \<and> chat_completion env q t = Inr content \<and>
    find_json_str env (str_strip env content) = Some json_str \<and> json_str \<noteq> [] \<and>
    json_loads env json_str = None \<longrightarrow>
      evaluate_relevance env q t enabled = (JBool True, JString reason_json_decode)) \<and>
   (enabled \<and> openai_api_key env \<noteq> [] \<and> chat_completion env q t = Inr content \<and>
    find_json_str env (str_strip env content) = Some json_str \<and> json_str \<noteq> [] \<and>
    json_loads env json_str = Some v \<and> type_name v \<noteq> ''dict'' \<longrightarrow>
      evaluate_relevance env q t enabled =
        (JBool True, JString (reason_error (has_no_attribute (type_name v) ''get'')))) \<and>
   (\<not> truthy (fst (evaluate_relevance env q t enabled)) \<longrightarrow>
      enabled \<and> openai_api_key env \<noteq> [] \<and>
      (\<exists>answer js kvs verdict. chat_completion env q t = Inr answer \<and>
         find_json_str env (str_strip env answer) = Some js \<and>
         json_loads env js = Some (JObject kvs) \<and>
         map_of kvs ''is_relevant'' = Some verdict \<and> \<not> truthy verdict))"
proof -
  have c1: "evaluate_relevance env q t False = (JBool True, JString reason_not_enabled)"
    by (simp add: evaluate_relevance_def)
  have c2: "openai_api_key env = [] \<longrightarrow> fst (evaluate_relevance env q t enabled) = JBool True"
    by (simp add: evaluate_relevance_def)
  have c3: "enabled \<and> openai_api_key env = [] \<longrightarrow>
      evaluate_relevance env q t enabled = (JBool True, JString reason_no_api)"
    by (simp add: evaluate_relevance_def)
  have c4: "enabled \<and> openai_api_key env \<noteq> [] \<and> chat_completion env q t = Inl e \<longrightarrow>
      evaluate_relevance env q t enabled = (JBool True, JString (reason_error (str e)))"
    by (simp add: evaluate_relevance_def)
  have c5: "enabled \<and> openai_api_key env \<noteq> [] \<and> chat_completion env q t = Inr content \<and>
    (find_json_str env (str_strip env content) = None \<or>
     find_json_str env (str_strip env content) = Some []) \<longrightarrow>
      evaluate_relevance env q t enabled = (JBool True, JString reason_no_json)"
    by (auto simp add: evaluate_relevance_def)
  have c6: "enabled \<and> openai_api_key env \<noteq> [] \<and> chat_completion env q t = Inr content \<and>
    find_json_str env (str_strip env content) = Some json_str \<and> json_str \<noteq> [] \<and>
    json_loads env json_str = None \<longrightarrow>
      evaluate_relevance env q t enabled = (JBool True, JString reason_json_decode)"
    by (simp add: evaluate_relevance_def)
  have c7: "enabled \<and> openai_api_key env \<noteq> [] \<and> chat_completion env q t = Inr content \<and>
    find_json_str env (str_strip env content) = Some json_str \<and> json_str \<noteq> [] \<and>
    json_loads env json_str = Some v \<and> type_name v \<noteq> ''dict'' \<longrightarrow>
      evaluate_relevance env q t enabled =
        (JBool True, JString (reason_error (has_no_attribute (type_name v) ''get'')))"
    by (cases v) (simp_all add: evaluate_relevance_def)
  have c8: "\<not> truthy (fst (evaluate_relevance env q t enabled)) \<longrightarrow>
      enabled \<and> openai_api_key env \<noteq> [] \<and>
      (\<exists>answer js kvs verdict. chat_completion env q t = Inr answer \<and>
         find_json_str env (str_strip env answer) = Some js \<and>
         json_loads env js = Some (JObject kvs) \<and>
         map_of kvs ''is_relevant'' = Some verdict \<and> \<not> truthy verdict)"
    by (auto simp add: evaluate_relevance_def dict_get_def
        split: if_splits sum.splits option.splits json.splits)
  show ?thesis
    using c1 c2 c3 c4 c5 c6 c7 c8 by (intro conjI) assumption+
qed

theorem evaluate_relevance_fail_open_witness:
  "evaluate_relevance example_env ''glaucoma'' ''a study'' True
     = (JBool True, JString reason_no_api) \<and>
   evaluate_relevance (llm_env (Inl (Exception ''timeout'')) None) ''glaucoma'' ''a study'' True
     = (JBool True, JString (reason_error ''timeout'')) \<and>
   evaluate_relevance (llm_env (Inr ''maybe'') None) ''glaucoma'' ''a study'' True
     = (JBool True, JString reason_no_json) \<and>
   evaluate_relevance (llm_env (Inr ''<json>{oops</json>'') None) ''glaucoma'' ''a study'' True
     = (JBool True, JString reason_json_decode) \<and>
   evaluate_relevance (llm_env (Inr ''<json>[1]</json>'') (Some (JArray [JInt 1])))
       ''glaucoma'' ''a study'' True
     = (JBool True, JString (reason_error (has_no_attribute ''list'' ''get''))) \<and>
   \<not> truthy (fst (evaluate_relevance null_verdict_env ''glaucoma'' ''a study'' True)) \<and>
   (\<exists>answer js kvs verdict.
      chat_completion null_verdict_env ''glaucoma'' ''a study'' = Inr answer \<and>
      find_json_str null_verdict_env (str_strip null_verdict_env answer) = Some js \<and>
      json_loads null_verdict_env js = Some (JObject kvs) \<and>
      map_of kvs ''is_relevant'' = Some verdict \<and> \<not> truthy verdict)"
proof -
  have k: "openai_api_key example_env = []"
    by (simp add: example_env_def)
  note l = llm_env_fields
  have f: "find_json_str (llm_env a p) s = find_json_str example_env s" for a p s
    by (rule find_json_str_ascii) (simp_all add: l)
  have n: "\<not> truthy (fst (evaluate_relevance null_verdict_env ''glaucoma'' ''a study'' True))"
    by (simp add: evaluate_relevance_def null_verdict_env_fields
        find_json_str_ascii [of null_verdict_env] find_json_str_null_verdict
        null_verdict_nonempty example_loads_null_verdict dict_get_def)
  have w1: "evaluate_relevance example_env ''glaucoma'' ''a study'' True
     = (JBool True, JString reason_no_api)"
    using evaluate_relevance_fail_open
      [of example_env "''glaucoma''" "''a study''" True "Exception []" "[]" "[]" JNull]
    by (simp add: k)
  have w2: "evaluate_relevance (llm_env (Inl (Exception ''timeout'')) None)
              ''glaucoma'' ''a study'' True = (JBool True, JString (reason_error ''timeout''))"
    using evaluate_relevance_fail_open [of "llm_env (Inl (Exception ''timeout'')) None"
        "''glaucoma''" "''a study''" True "Exception ''timeout''" "[]" "[]" JNull]
    by (simp add: str_def l)
  have w3: "evaluate_relevance (llm_env (Inr ''maybe'') None) ''glaucoma'' ''a study'' True
     = (JBool True, JString reason_no_json)"
    using evaluate_relevance_fail_open [of "llm_env (Inr ''maybe'') None"
        "''glaucoma''" "''a study''" True "Exception []" "''maybe''" "[]" JNull]
    by (simp add: l f find_json_str_none)
  have w4: "evaluate_relevance (llm_env (Inr ''<json>{oops</json>'') None)
              ''glaucoma'' ''a study'' True = (JBool True, JString reason_json_decode)"
    using evaluate_relevance_fail_open [of "llm_env (Inr ''<json>{oops</json>'') None"
        "''glaucoma''" "''a study''" True "Exception []" "''<json>{oops</json>''" "''{oops''"
        JNull]
    by (simp add: l f find_json_str_broken)
  have w5: "evaluate_relevance (llm_env (Inr ''<json>[1]</json>'') (Some (JArray [JInt 1])))
       ''glaucoma'' ''a study'' True
     = (JBool True, JString (reason_error (has_no_attribute ''list'' ''get'')))"
    using evaluate_relevance_fail_open
      [of "llm_env (Inr ''<json>[1]</json>'') (Some (JArray [JInt 1]))"
        "''glaucoma''" "''a study''" True "Exception []" "''<json>[1]</json>''" "''[1]''"
        "JArray [JInt 1]"]
    by (simp add: l f find_json_str_list)
  have w6: "\<exists>answer js kvs verdict.
      chat_completion null_verdict_env ''glaucoma'' ''a study'' = Inr answer \<and>
      find_json_str null_verdict_env (str_strip null_verdict_env answer) = Some js \<and>
      json_loads null_verdict_env js = Some (JObject kvs) \<and>
      map_of kvs ''is_relevant'' = Some verdict \<and> \<not> truthy verdict"
    using n evaluate_relevance_fail_open [of null_verdict_env
        "''glaucoma''" "''a study''" True "Exception []" "[]" "[]" JNull]
    by blast
  show ?thesis
    using w1 w2 w3 w4 w5 n w6 by (intro conjI)
qed

text \<open>
  C7 as stated gives the reason of a disabled gate as the text \<open>not evaluated\<close>; the
  reason the code returns is another string.
\<close>

theorem evaluate_relevance_not_evaluated_counterexample:
  "evaluate_relevance example_env ''glaucoma'' ''a study'' False
     \<noteq> (JBool True, JString ''not evaluated'')"
  by (simp add: evaluate_relevance_def reason_not_enabled_def)

section \<open>The vector strategy keeps the hits that pass the gate\<close>

lemma save_to_cache_Inr:
  assumes "save_to_cache env q request r = Inr r'"
  shows "r' = r \<or> (\<exists>sid. r' = r\<lparr>search_id := Some sid\<rparr>)"
  using assms
  by (auto simp add: save_to_cache_def split: option.splits sum.splits if_splits)

lemma save_to_cache_fields:
  assumes "save_to_cache env q request r = Inr r'"
  shows "results r' = results r" "total r' = total r"
    "response_searchType r' = response_searchType r" "rewrittenTerms r' = rewrittenTerms r"
  using save_to_cache_Inr [OF assms] by auto

lemma save_to_cache_no_cache: "cache env = None \<Longrightarrow> save_to_cache env q request r = Inr r"
  by (simp add: save_to_cache_def)

lemma vector_search_Inr:
  assumes "vector_search env q ts request = Inr response"
  shows "\<exists>query_embedding er.
           get_embedding env q = Inr query_embedding \<and>
           opensearch_search env
             (build_vector_search_query query_embedding ts (page request) (pageSize request)) []
             = Inr er \<and>
           save_to_cache env q request
             \<lparr>total = int (length (filter (relevant env q (enableLlm request)) (hits er))),
              results = map (gated_result env q (enableLlm request))
                          (filter (relevant env q (enableLlm request)) (hits er)),
              response_searchType = searchType request,
              rewrittenTerms = Some ts,
              search_id = None\<rparr> = Inr response"
proof -
  obtain query_embedding er rs where
    e: "get_embedding env q = Inr query_embedding"
    and o: "opensearch_search env
             (build_vector_search_query query_embedding ts (page request) (pageSize request)) []
             = Inr er"
    and l: "vector_hits_loop env q (enableLlm request) (hits er) [] = Inr rs"
    and c: "save_to_cache env q request
             \<lparr>total = int (length rs), results = rs,
              response_searchType = searchType request,
              rewrittenTerms = Some ts,
              search_id = None\<rparr> = Inr response"
    using assms
    by (auto simp add: vector_search_def split: if_splits sum.splits)
  have "rs = map (gated_result env q (enableLlm request))
               (filter (relevant env q (enableLlm request)) (hits er))"
    using vector_hits_loop_Inr [OF l] by simp
  then show ?thesis
    using e o c by auto
qed

lemma vector_search_total:
  assumes "vector_search env q ts request = Inr response"
  shows "total response = int (length (results response))"
proof -
  obtain base where "save_to_cache env q request base = Inr response"
    and "total base = int (length (results base))"
    using vector_search_Inr [OF assms] by fastforce
  then show ?thesis
    using save_to_cache_fields(1,2) [of env q request base response] by simp
qed

lemma search_vector_total:
  assumes "searchType request = ''vector''"
  shows "total (search env request) = int (length (results (search env request)))"
proof (cases "search_try env request")
  case (Inl e)
  then show ?thesis by (simp add: search_def empty_response_def)
next
  case (Inr response)
  then have "response = empty_response request \<or>
             (\<exists>q ts. vector_search env q ts request = Inr response)"
    using assms
    by (auto simp add: search_try_def Let_def split: if_splits sum.splits)
  then show ?thesis
    using Inr vector_search_total by (auto simp add: search_def empty_response_def)
qed

lemma gate_env_strings:
  "str_strip gate_env = ascii_strip" "re_skip_space gate_env = ascii_skip_space"
  by (simp_all add: gate_env_def example_env_def)

lemma gate_env_llm:
  "openai_api_key gate_env = ''sk''"
  "chat_completion gate_env q t =
     (if sublist ''optic'' t then Inr ''<json>no</json>'' else Inr ''<json>yes</json>'')"
  "json_loads gate_env s =
     (if s = ''no''
      then Some (JObject [(''is_relevant'', JBool False), (''reason'', JString ''off topic'')])
      else Some (JObject [(''is_relevant'', JBool True), (''reason'', JString ''on topic'')]))"
  by (simp_all add: gate_env_def)

lemma gate_env_hit_b:
  "evaluate_relevance gate_env ''glaucoma'' (eval_text hit_b) True
     = (JBool False, JString ''off topic'')"
proof -
  have s: "sublist ''optic'' (eval_text hit_b)" by code_simp
  have "find_json_str example_env (ascii_strip ''<json>no</json>'') = Some ''no''" by code_simp
  then have j: "find_json_str gate_env (ascii_strip ''<json>no</json>'') = Some ''no''"
    by (simp add: find_json_str_ascii [of gate_env] gate_env_strings)
  show ?thesis
    by (simp add: evaluate_relevance_def gate_env_llm gate_env_strings s j dict_get_def)
qed

lemma gate_env_hit_c:
  "evaluate_relevance gate_env ''glaucoma'' (eval_text hit_c) True
     = (JBool True, JString ''on topic'')"
proof -
  have s: "\<not> sublist ''optic'' (eval_text hit_c)" by code_simp
  have "find_json_str example_env (ascii_strip ''<json>yes</json>'') = Some ''yes''" by code_simp
  then have j: "find_json_str gate_env (ascii_strip ''<json>yes</json>'') = Some ''yes''"
    by (simp add: find_json_str_ascii [of gate_env] gate_env_strings)
  show ?thesis
    by (simp add: evaluate_relevance_def gate_env_llm gate_env_strings s j dict_get_def)
qed

lemma gate_env_vector_hits:
  "opensearch_search gate_env (build_vector_search_query v ts p n) [] =
     Inr \<lparr>hits = [hit_b, hit_c], total_value = 57\<rparr>"
  by (simp add: opensearch_search_def gate_env_def example_env_def example_client_def
      build_vector_search_query_def)

lemma gate_env_handles:
  "get_embedding gate_env t = Inr [Finite 0.1, Finite 0.2]" "embedder gate_env \<noteq> None"
  "cache gate_env = None" "reranker gate_env = None"
  by (simp_all add: get_embedding_def gate_env_def example_env_def)

lemma gate_env_vector_search:
  "vector_search gate_env ''glaucoma'' [''glaucoma'']
     ((example_request ''vector'')\<lparr>enableLlm := True\<rparr>) =
   Inr \<lparr>total = 1, results = [vector_result_with hit_c (Some ''on topic'')],
        response_searchType = ''vector'', rewrittenTerms = Some [''glaucoma''],
        search_id = None\<rparr>"
  by (simp add: vector_search_def gate_env_handles gate_env_vector_hits gate_env_hit_b
      gate_env_hit_c save_to_cache_def example_request_def vector_result_def)

text \<open>
  C5. A response of the vector strategy has as many results as its total says (also when
  the search fails: 0 and none). When \<open>_vector_search\<close> returns, the embedding and the
  engine call succeeded, the results are, in the engine's order, exactly the hits that
  the relevance gate judged relevant, each carrying the gate's reason, and the total is
  their number, whatever total the engine reports. With \<open>enableLlm\<close> false every hit
  passes.
\<close>

theorem vector_search_filtered:
  "(searchType request = ''vector'' \<longrightarrow>
      total (search env request) = int (length (results (search env request)))) \<and>
   (vector_search env q ts request = Inr response \<longrightarrow>
      (\<exists>query_embedding er.
         get_embedding env q = Inr query_embedding \<and>
         opensearch_search env
           (build_vector_search_query query_embedding ts (page request) (pageSize request)) []
           = Inr er \<and>
         results response =
           map (gated_result env q (enableLlm request))
             (filter (relevant env q (enableLlm request)) (hits er)) \<and>
         total response = int (length (filter (relevant env q (enableLlm request)) (hits er))) \<and>
         (\<not> enableLlm request \<longrightarrow>
            filter (relevant env q (enableLlm request)) (hits er) = hits er)))"
proof -
  have a: "searchType request = ''vector'' \<longrightarrow>
      total (search env request) = int (length (results (search env request)))"
    using search_vector_total by blast
  have b: "vector_search env q ts request = Inr response \<longrightarrow>
      (\<exists>query_embedding er.
         get_embedding env q = Inr query_embedding \<and>
         opensearch_search env
           (build_vector_search_query query_embedding ts (page request) (pageSize request)) []
           = Inr er \<and>
         results response =
           map (gated_result env q (enableLlm request))
             (filter (relevant env q (enableLlm request)) (hits er)) \<and>
         total response = int (length (filter (relevant env q (enableLlm request)) (hits er))) \<and>
         (\<not> enableLlm request \<longrightarrow>
            filter (relevant env q (enableLlm request)) (hits er) = hits er))"
  proof
    assume v: "vector_search env q ts request = Inr response"
    obtain query_embedding er where
      e: "get_embedding env q = Inr query_embedding"
      and o: "opensearch_search env
           (build_vector_search_query query_embedding ts (page request) (pageSize request)) []
           = Inr er"
      and c: "save_to_cache env q request
             \<lparr>total = int (length (filter (relevant env q (enableLlm request)) (hits er))),
              results = map (gated_result env q (enableLlm request))
                          (filter (relevant env q (enableLlm request)) (hits er)),
              response_searchType = searchType request,
              rewrittenTerms = Some ts,
              search_id = None\<rparr> = Inr response"
      using vector_search_Inr [OF v] by blast
    have f: "\<not> enableLlm request \<longrightarrow>
            filter (relevant env q (enableLlm request)) (hits er) = hits er"
      by (simp add: relevant_disabled)
    show "\<exists>query_embedding er.
         get_embedding env q = Inr query_embedding \<and>
         opensearch_search env
           (build_vector_search_query query_embedding ts (page request) (pageSize request)) []
           = Inr er \<and>
         results response =
           map (gated_result env q (enableLlm request))
             (filter (relevant env q (enableLlm request)) (hits er)) \<and>
         total response = int (length (filter (relevant env q (enableLlm request)) (hits er))) \<and>
         (\<not> enableLlm request \<longrightarrow>
            filter (relevant env q (enableLlm request)) (hits er) = hits er)"
      using e o f save_to_cache_fields(1,2) [OF c] by auto
  qed
  show ?thesis using a b by (rule conjI)
qed

theorem vector_search_filtered_witness:
  "searchType ((example_request ''vector'')\<lparr>enableLlm := True\<rparr>) = ''vector'' \<and>
   vector_search gate_env ''glaucoma'' [''glaucoma'']
     ((example_request ''vector'')\<lparr>enableLlm := True\<rparr>) =
   Inr \<lparr>total = 1, results = [vector_result_with hit_c (Some ''on topic'')],
        response_searchType = ''vector'', rewrittenTerms = Some [''glaucoma''],
        search_id = None\<rparr> \<and>
   total (search gate_env ((example_request ''vector'')\<lparr>enableLlm := True\<rparr>)) =
     int (length (results (search gate_env ((example_request ''vector'')\<lparr>enableLlm := True\<rparr>)))) \<and>
   (\<exists>er. opensearch_search gate_env
           (build_vector_search_query [Finite 0.1, Finite 0.2] [''glaucoma''] 1 30) [] = Inr er \<and>
         total_value er = 57 \<and> length (hits er) = 2 \<and>
         [vector_result_with hit_c (Some ''on topic'')] =
           map (gated_result gate_env ''glaucoma'' True)
             (filter (relevant gate_env ''glaucoma'' True) (hits er)) \<and>
         (1::int) = int (length (filter (relevant gate_env ''glaucoma'' True) (hits er))))"
proof -
  have t: "searchType ((example_request ''vector'')\<lparr>enableLlm := True\<rparr>) = ''vector''"
    "enableLlm ((example_request ''vector'')\<lparr>enableLlm := True\<rparr>)"
    "page ((example_request ''vector'')\<lparr>enableLlm := True\<rparr>) = 1"
    "pageSize ((example_request ''vector'')\<lparr>enableLlm := True\<rparr>) = 30"
    by (simp_all add: example_request_def)
  note w = vector_search_filtered
    [where request = "(example_request ''vector'')\<lparr>enableLlm := True\<rparr>"
       and env = gate_env and q = "''glaucoma''" and ts = "[''glaucoma'']"
       and response = "\<lparr>total = 1, results = [vector_result_with hit_c (Some ''on topic'')],
        response_searchType = ''vector'', rewrittenTerms = Some [''glaucoma''],
        search_id = None\<rparr>"]
  have a: "total (search gate_env ((example_request ''vector'')\<lparr>enableLlm := True\<rparr>)) =
     int (length (results (search gate_env ((example_request ''vector'')\<lparr>enableLlm := True\<rparr>))))"
    using w t(1) by blast
  have b: "\<exists>er. opensearch_search gate_env
           (build_vector_search_query [Finite 0.1, Finite 0.2] [''glaucoma''] 1 30) [] = Inr er \<and>
         total_value er = 57 \<and> length (hits er) = 2 \<and>
         [vector_result_with hit_c (Some ''on topic'')] =
           map (gated_result gate_env ''glaucoma'' True)
             (filter (relevant gate_env ''glaucoma'' True) (hits er)) \<and>
         (1::int) = int (length (filter (relevant gate_env ''glaucoma'' True) (hits er)))"
    using w gate_env_vector_search
    by (simp add: t gate_env_handles gate_env_vector_hits)
  show ?thesis
    using t(1) gate_env_vector_search a b by (intro conjI)
qed

section \<open>The strategies, unfolded\<close>

lemma supplement_unfold:
  "supplement_with_vector_search env q ts rs seen request =
     (case get_embedding env (join '' '' (q # ts)) of
        Inl e \<Rightarrow> Inl e
      | Inr query_embedding \<Rightarrow>
          (case opensearch_search env
                  (supplement_query query_embedding ts seen (10000 - int (length rs))) [] of
             Inl e \<Rightarrow> Inl e
           | Inr vr \<Rightarrow>
               (case supplement_hits_loop env q (enableLlm request) seen (hits vr) [] of
                  Inl e \<Rightarrow> Inl e
                | Inr vs \<Rightarrow> Inr (sort_by_score env (rs @ vs)))))"
  unfolding supplement_with_vector_search_def Let_def by simp

lemma supplement_Inr:
  assumes "supplement_with_vector_search env q ts rs seen request = Inr out"
  shows "\<exists>query_embedding vr.
           get_embedding env (join '' '' (q # ts)) = Inr query_embedding \<and>
           opensearch_search env
             (supplement_query query_embedding ts seen (10000 - int (length rs))) [] = Inr vr \<and>
           out = sort_by_score env
                   (rs @ map (gated_result env q (enableLlm request))
                           (survivors env q (enableLlm request) seen (hits vr))) \<and>
           (\<forall>h\<in>set (survivors env q (enableLlm request) seen (hits vr)).
              reason_accepted (gate_reason env q (enableLlm request) h))"
proof -
  obtain query_embedding vr vs where
    e: "get_embedding env (join '' '' (q # ts)) = Inr query_embedding"
    and o: "opensearch_search env
             (supplement_query query_embedding ts seen (10000 - int (length rs))) [] = Inr vr"
    and l: "supplement_hits_loop env q (enableLlm request) seen (hits vr) [] = Inr vs"
    and s: "out = sort_by_score env (rs @ vs)"
    using assms unfolding supplement_unfold
    by (auto split: sum.splits)
  have "vs = map (gated_result env q (enableLlm request))
               (survivors env q (enableLlm request) seen (hits vr))"
    and "\<forall>h\<in>set (survivors env q (enableLlm request) seen (hits vr)).
           reason_accepted (gate_reason env q (enableLlm request) h)"
    using supplement_hits_loop_Inr [OF l] by simp_all
  then show ?thesis
    using e o s by blast
qed

lemma supplement_accepted:
  assumes "get_embedding env (join '' '' (q # ts)) = Inr query_embedding"
    and "opensearch_search env
           (supplement_query query_embedding ts seen (10000 - int (length rs))) [] = Inr vr"
    and "\<forall>h\<in>set (survivors env q (enableLlm request) seen (hits vr)).
           reason_accepted (gate_reason env q (enableLlm request) h)"
  shows "supplement_with_vector_search env q ts rs seen request =
           Inr (sort_by_score env
                  (rs @ map (gated_result env q (enableLlm request))
                          (survivors env q (enableLlm request) seen (hits vr))))"
  unfolding supplement_unfold
  using assms(1,2) supplement_hits_loop_accepted [OF assms(3), of "[]"] by simp

lemma keyword_search_unfold:
  "keyword_search env q ts request =
     (case opensearch_search env
             (build_keyword_search_query ts (page request) (pageSize request)) [] of
        Inl e \<Rightarrow> Inl e
      | Inr er \<Rightarrow>
          (case (if length (hits er) < 10000 \<and> embedder env \<noteq> None
                 then supplement_with_vector_search env q ts
                        (map (lexical_result env ''keyword'' ts) (hits er)) (hit_ids (hits er))
                        request
                 else Inr (map (lexical_result env ''keyword'' ts) (hits er))) of
             Inl e \<Rightarrow> Inl e
           | Inr rs \<Rightarrow>
               save_to_cache env q request
                 \<lparr>total = int (length (rerank_if_enabled env q rs)),
                  results = rerank_if_enabled env q rs,
                  response_searchType = searchType request,
                  rewrittenTerms = Some ts,
                  search_id = None\<rparr>))"
  by (simp add: keyword_search_def keyword_loop Let_def split: sum.splits)

lemma hybrid_search_unfold:
  "hybrid_search env q ts request =
     (if embedder env = None then Inl embedder_unavailable_hybrid
      else case get_embedding env q of
        Inl e \<Rightarrow> Inl e
      | Inr query_embedding \<Rightarrow>
          (case opensearch_search env
                  (build_hybrid_search_query ts query_embedding (page request) (pageSize request))
                  [(''search_pipeline'', ''nlp-search-pipeline'')] of
             Inl e \<Rightarrow> Inl e
           | Inr er \<Rightarrow>
               save_to_cache env q request
                 \<lparr>total = total_value er,
                  results = rerank_if_enabled env q
                              (map (lexical_result env ''hybrid'' ts) (hits er)),
                  response_searchType = searchType request,
                  rewrittenTerms = Some ts,
                  search_id = None\<rparr>))"
  by (simp add: hybrid_search_def lexical_loop Let_def split: sum.splits)

text \<open>The dispatch of \<open>search\<close> on a request that names neither the hybrid nor the
  vector strategy.\<close>

lemma search_try_keyword:
  assumes "opensearch_client env \<noteq> None" "unquote env (query request) = Inr q" "q \<noteq> []"
    and "expand_query env q = Inr ts"
    and "searchType request \<noteq> ''hybrid''" "searchType request \<noteq> ''vector''"
  shows "search_try env request = keyword_search env q ts request"
  using assms by (auto simp add: search_try_def Let_def)

text \<open>A keyword search whose supplementation succeeds, with no cache.\<close>

lemma keyword_search_supplemented:
  assumes "opensearch_search env
             (build_keyword_search_query ts (page request) (pageSize request)) [] = Inr er"
    and "length (hits er) < 10000" "embedder env \<noteq> None"
    and "get_embedding env (join '' '' (q # ts)) = Inr query_embedding"
    and "opensearch_search env
           (supplement_query query_embedding ts (hit_ids (hits er))
              (10000 - int (length (hits er)))) [] = Inr vr"
    and "\<forall>h\<in>set (survivors env q (enableLlm request) (hit_ids (hits er)) (hits vr)).
           reason_accepted (gate_reason env q (enableLlm request) h)"
    and "cache env = None"
  shows "keyword_search env q ts request =
           Inr \<lparr>total = int (length (hits er)) +
                         int (length (survivors env q (enableLlm request) (hit_ids (hits er))
                                        (hits vr))),
                results = rerank_if_enabled env q
                            (sort_by_score env
                               (map (lexical_result env ''keyword'' ts) (hits er) @
                                map (gated_result env q (enableLlm request))
                                  (survivors env q (enableLlm request) (hit_ids (hits er))
                                     (hits vr)))),
                response_searchType = searchType request,
                rewrittenTerms = Some ts,
                search_id = None\<rparr>"
proof -
  have "supplement_with_vector_search env q ts
          (map (lexical_result env ''keyword'' ts) (hits er)) (hit_ids (hits er)) request =
        Inr (sort_by_score env
               (map (lexical_result env ''keyword'' ts) (hits er) @
                map (gated_result env q (enableLlm request))
                  (survivors env q (enableLlm request) (hit_ids (hits er)) (hits vr))))"
    using assms(4,5,6)
      supplement_accepted [of env q ts query_embedding "hit_ids (hits er)"
        "map (lexical_result env ''keyword'' ts) (hits er)" vr request]
    by simp
  then show ?thesis
    unfolding keyword_search_unfold
    using assms(1,2,3,7)
    by (simp add: save_to_cache_def rerank_if_enabled_length length_sort_by_score)
qed

section \<open>Scores through the strategies\<close>

lemma score_lexical: "map score (map (lexical_result env nm ts) hs) = map h_score hs"
  by (simp add: lexical_result_def Let_def)

lemma score_gated: "map score (map (gated_result env q b) hs) = map h_score hs"
  by (simp add: gated_result_def vector_result_with_def)

lemma non_increasing_filter:
  "non_increasing (map f xs) \<Longrightarrow> non_increasing (map f (filter P xs))"
  by (simp add: non_increasing_def sorted_wrt_map sorted_wrt_filter)

lemma engine_sorted_search:
  "engine_sorted env \<Longrightarrow> opensearch_search env body params = Inr er \<Longrightarrow>
     non_increasing (map h_score (hits er))"
  by (auto simp add: engine_sorted_def opensearch_search_def split: option.splits)

lemma engine_numeric_search:
  "engine_numeric env \<Longrightarrow> opensearch_search env body params = Inr er \<Longrightarrow>
     NaN \<notin> set (map h_score (hits er))"
  unfolding engine_numeric_def opensearch_search_def
  by (cases "opensearch_client env") (simp, fastforce)

lemma survivors_numeric: "NaN \<notin> set (map h_score (survivors env q b seen hs))"
  using float_ge_not_NaN by (fastforce simp add: survivors_def survives_def)

lemma hybrid_search_sorted:
  assumes "engine_sorted env" "engine_numeric env" "reranker_numeric env"
    and "hybrid_search env q ts request = Inr response"
  shows "non_increasing (map score (results response))"
proof -
  obtain query_embedding er where o: "opensearch_search env
      (build_hybrid_search_query ts query_embedding (page request) (pageSize request))
      [(''search_pipeline'', ''nlp-search-pipeline'')] = Inr er"
    and c: "save_to_cache env q request
                 \<lparr>total = total_value er,
                  results = rerank_if_enabled env q
                              (map (lexical_result env ''hybrid'' ts) (hits er)),
                  response_searchType = searchType request,
                  rewrittenTerms = Some ts,
                  search_id = None\<rparr> = Inr response"
    using assms(4) unfolding hybrid_search_unfold
    by (auto split: if_splits sum.splits)
  have s: "non_increasing (map score (map (lexical_result env ''hybrid'' ts) (hits er)))"
    using engine_sorted_search [OF assms(1) o] by (simp only: score_lexical)
  have n: "NaN \<notin> set (map score (map (lexical_result env ''hybrid'' ts) (hits er)))"
    using engine_numeric_search [OF assms(2) o] unfolding score_lexical .
  have "non_increasing
      (map score (rerank_if_enabled env q (map (lexical_result env ''hybrid'' ts) (hits er))))"
    using assms(3) n s by (rule rerank_if_enabled_sorted)
  then show ?thesis
    using save_to_cache_fields(1) [OF c] by simp
qed

lemma vector_search_sorted:
  assumes "engine_sorted env" "vector_search env q ts request = Inr response"
  shows "non_increasing (map score (results response))"
proof -
  obtain query_embedding er where
    o: "opensearch_search env
           (build_vector_search_query query_embedding ts (page request) (pageSize request)) []
           = Inr er"
    and c: "save_to_cache env q request
             \<lparr>total = int (length (filter (relevant env q (enableLlm request)) (hits er))),
              results = map (gated_result env q (enableLlm request))
                          (filter (relevant env q (enableLlm request)) (hits er)),
              response_searchType = searchType request,
              rewrittenTerms = Some ts,
              search_id = None\<rparr> = Inr response"
    using vector_search_Inr [OF assms(2)] by blast
  have "non_increasing (map h_score (filter (relevant env q (enableLlm request)) (hits er)))"
    using engine_sorted_search [OF assms(1) o] by (rule non_increasing_filter)
  then have "non_increasing (map score (map (gated_result env q (enableLlm request))
                          (filter (relevant env q (enableLlm request)) (hits er))))"
    by (simp only: score_gated)
  then show ?thesis
    using save_to_cache_fields(1) [OF c] by simp
qed

lemma keyword_search_sorted:
  assumes "engine_sorted env" "engine_numeric env" "reranker_numeric env"
    and "keyword_search env q ts request = Inr response"
  shows "non_increasing (map score (results response))"
proof -
  obtain er rs where o: "opensearch_search env
             (build_keyword_search_query ts (page request) (pageSize request)) [] = Inr er"
    and s: "(if length (hits er) < 10000 \<and> embedder env \<noteq> None
                 then supplement_with_vector_search env q ts
                        (map (lexical_result env ''keyword'' ts) (hits er)) (hit_ids (hits er))
                        request
                 else Inr (map (lexical_result env ''keyword'' ts) (hits er))) = Inr rs"
    and c: "save_to_cache env q request
                 \<lparr>total = int (length (rerank_if_enabled env q rs)),
                  results = rerank_if_enabled env q rs,
                  response_searchType = searchType request,
                  rewrittenTerms = Some ts,
                  search_id = None\<rparr> = Inr response"
    using assms(4) unfolding keyword_search_unfold
    by (auto split: sum.splits)
  have kn: "NaN \<notin> set (map score (map (lexical_result env ''keyword'' ts) (hits er)))"
    using engine_numeric_search [OF assms(2) o] unfolding score_lexical .
  have "NaN \<notin> set (map score rs) \<and> non_increasing (map score rs)"
  proof (cases "length (hits er) < 10000 \<and> embedder env \<noteq> None")
    case True
    then have "supplement_with_vector_search env q ts
                 (map (lexical_result env ''keyword'' ts) (hits er)) (hit_ids (hits er)) request
               = Inr rs"
      using s by simp
    then obtain vr :: engine_response where
      r: "rs = sort_by_score env
                   (map (lexical_result env ''keyword'' ts) (hits er) @
                    map (gated_result env q (enableLlm request))
                      (survivors env q (enableLlm request) (hit_ids (hits er)) (hits vr)))"
      using supplement_Inr by blast
    have "NaN \<notin> set (map score (map (gated_result env q (enableLlm request))
                      (survivors env q (enableLlm request) (hit_ids (hits er)) (hits vr))))"
      unfolding score_gated by (rule survivors_numeric)
    then have "NaN \<notin> set (map score
                   (map (lexical_result env ''keyword'' ts) (hits er) @
                    map (gated_result env q (enableLlm request))
                      (survivors env q (enableLlm request) (hit_ids (hits er)) (hits vr))))"
      using kn by (simp only: map_append set_append Un_iff) blast
    then show ?thesis
      unfolding r using sort_by_score_sorted sort_by_score_numeric by blast
  next
    case False
    then have r: "rs = map (lexical_result env ''keyword'' ts) (hits er)"
      using s by auto
    have "non_increasing (map score (map (lexical_result env ''keyword'' ts) (hits er)))"
      using engine_sorted_search [OF assms(1) o] unfolding score_lexical .
    then show ?thesis
      unfolding r using kn by (rule conjI [rotated])
  qed
  then have "non_increasing (map score (rerank_if_enabled env q rs))"
    using assms(3) rerank_if_enabled_sorted by blast
  then show ?thesis
    using save_to_cache_fields(1) [OF c] by simp
qed

section \<open>Running the example index\<close>

lemma opensearch_search_client:
  "opensearch_client env = Some client \<Longrightarrow>
     opensearch_search env body params = client (OPENSEARCH_INDEX_NAME env) body params"
  by (simp add: opensearch_search_def)

lemma get_embedding_embedder:
  "embedder env = Some get_embeddings \<Longrightarrow> get_embedding env t = get_embeddings t"
  by (simp add: get_embedding_def)

text \<open>In the example environments a list with a NaN key is left as it is.\<close>

lemma sort_reverse_nan_identity:
  assumes "sort_order_nan env (map key xs) = [0..<length xs]" "NaN \<in> set (map key xs)"
  shows "sort_reverse env key xs = xs"
proof -
  have "sort [0..<length xs] = [0..<length xs]"
    by (simp add: sorted_sort_id)
  then show ?thesis
    using assms by (simp add: sort_reverse_def Let_def map_nth)
qed

lemma sort_by_score_nan_identity:
  assumes "\<And>keys. sort_order_nan env keys = [0..<length keys]" "NaN \<in> set (map score rs)"
  shows "sort_by_score env rs = rs"
  unfolding sort_by_score_def
  using assms(1) [of "map score rs"] assms(2) by (simp add: sort_reverse_nan_identity)

text \<open>The whole of a keyword search whose supplementation succeeds, with no cache.\<close>

lemma search_keyword_supplemented:
  assumes "opensearch_client env = Some client"
    and "unquote env (query request) = Inr q" "q \<noteq> []" "expand_query env q = Inr ts"
    and "searchType request \<noteq> ''hybrid''" "searchType request \<noteq> ''vector''"
    and "client (OPENSEARCH_INDEX_NAME env)
           (build_keyword_search_query ts (page request) (pageSize request)) [] = Inr er"
    and "length (hits er) < 10000"
    and "embedder env = Some get_embeddings"
    and "get_embeddings (join '' '' (q # ts)) = Inr query_embedding"
    and "client (OPENSEARCH_INDEX_NAME env)
           (supplement_query query_embedding ts (hit_ids (hits er))
              (10000 - int (length (hits er)))) [] = Inr vr"
    and "survivors env q (enableLlm request) (hit_ids (hits er)) (hits vr) = kept"
    and "\<forall>h\<in>set kept. reason_accepted (gate_reason env q (enableLlm request) h)"
    and "cache env = None"
  shows "search env request =
           \<lparr>total = int (length (hits er)) + int (length kept),
            results = rerank_if_enabled env q
                        (sort_by_score env
                           (map (lexical_result env ''keyword'' ts) (hits er) @
                            map (gated_result env q (enableLlm request)) kept)),
            response_searchType = searchType request,
            rewrittenTerms = Some ts,
            search_id = None\<rparr>"
proof -
  have t: "search_try env request = keyword_search env q ts request"
    using assms(1-6) by (intro search_try_keyword) simp_all
  have o: "opensearch_search env
             (build_keyword_search_query ts (page request) (pageSize request)) [] = Inr er"
    using assms(1,7) by (simp add: opensearch_search_client)
  have e: "embedder env \<noteq> None" "get_embedding env (join '' '' (q # ts)) = Inr query_embedding"
    using assms(9,10) by (simp_all add: get_embedding_embedder)
  have v: "opensearch_search env
           (supplement_query query_embedding ts (hit_ids (hits er))
              (10000 - int (length (hits er)))) [] = Inr vr"
    using assms(1,11) by (simp add: opensearch_search_client)
  have a: "\<forall>h\<in>set (survivors env q (enableLlm request) (hit_ids (hits er)) (hits vr)).
             reason_accepted (gate_reason env q (enableLlm request) h)"
    using assms(12,13) by simp
  show ?thesis
    unfolding search_def t keyword_search_supplemented [OF o assms(8) e(1) e(2) v a assms(14)]
    by (simp add: assms(12))
qed

subsection \<open>The hits and their results\<close>

lemma example_scores:
  "h_score hit_a = Finite 2.5" "h_score hit_b = Finite 0.6" "h_score hit_c = Finite 0.05"
  "h_score hit_n = NaN" "h_score hit_d = Finite 3.5"
  by (simp_all add: hit_a_def hit_b_def hit_c_def hit_n_def hit_d_def)

lemma example_ids:
  "src_id (h_source hit_a) = ''1''" "src_id (h_source hit_b) = ''2''"
  "src_id (h_source hit_c) = ''3''" "src_id (h_source hit_n) = ''4''"
  "src_id (h_source hit_d) = ''5''"
  by (simp_all add: hit_a_def hit_b_def hit_c_def hit_n_def hit_d_def)

lemma example_result_scores:
  "score (lexical_result env nm ts h) = h_score h"
  "score (vector_result_with h reason) = h_score h"
  by (simp_all add: lexical_result_def vector_result_with_def Let_def)

lemma example_titles:
  "title (lexical_result env nm ts hit_a) = ''glaucoma study''"
  "title (vector_result_with hit_b reason) = ''optic nerve''"
  by (simp_all add: lexical_result_def vector_result_with_def Let_def hit_a_def hit_b_def)

lemma example_request_fields:
  "query (example_request t) = ''glaucoma''" "page (example_request t) = 1"
  "pageSize (example_request t) = 30" "searchType (example_request t) = t"
  "enableLlm (example_request t) = False"
  by (simp_all add: example_request_def)

subsection \<open>The engines\<close>

lemma example_client_answers:
  "example_client i (build_keyword_search_query ts p n) ps =
     Inr \<lparr>hits = [hit_a], total_value = 57\<rparr>"
  "example_client i (supplement_query v ts seen m) ps =
     Inr \<lparr>hits = [hit_b, hit_c], total_value = 57\<rparr>"
  by (simp_all add: example_client_def build_keyword_search_query_def supplement_query_def)


lemma reorder_client_answers:
  "reorder_client i (build_keyword_search_query ts p n) ps =
     Inr \<lparr>hits = [hit_a], total_value = 1\<rparr>"
  "reorder_client i (supplement_query v ts seen m) ps =
     Inr \<lparr>hits = [hit_d, hit_b, hit_c], total_value = 3\<rparr>"
  by (simp_all add: reorder_client_def build_keyword_search_query_def supplement_query_def)

subsection \<open>The candidates that survive\<close>

lemma example_survivors:
  "survivors env q False (hit_ids [hit_a]) [hit_b, hit_c] = [hit_b]"
  "survivors env q False (hit_ids [hit_n]) [hit_b, hit_c] = [hit_b]"
  "survivors env q False (hit_ids [hit_a]) [hit_d, hit_b, hit_c] = [hit_d, hit_b]"
  by (simp_all add: survivors_def survives_def hit_ids_def relevant_disabled example_scores
      example_ids)

subsection \<open>The sorts\<close>

lemma example_sorted:
  "sort_by_score env [lexical_result env' ''keyword'' ts hit_a, vector_result_with hit_b reason] =
     [lexical_result env' ''keyword'' ts hit_a, vector_result_with hit_b reason]"
  by (simp add: sort_by_score_def sort_reverse_def example_result_scores example_scores)

lemma example_reordered:
  "sort_by_score env
     [lexical_result env' ''keyword'' ts hit_a, vector_result_with hit_d reason,
      vector_result_with hit_b reason] =
     [vector_result_with hit_d reason, lexical_result env' ''keyword'' ts hit_a,
      vector_result_with hit_b reason]"
  by (simp add: sort_by_score_def sort_reverse_def example_result_scores example_scores)

subsection \<open>The environments\<close>

lemma example_env_fields:
  "opensearch_client example_env = Some example_client"
  "embedder example_env = Some (\<lambda>text. Inr [Finite 0.1, Finite 0.2])"
  "cache example_env = None"
  "unquote example_env s = Inr s"
  "expand_query example_env q = Inr [q]"
  "sort_order_nan example_env keys = [0..<length keys]"
  "reranker example_env = None"
  by (simp_all add: example_env_def)

lemma rerank_env_fields:
  "opensearch_client rerank_env = Some example_client"
  "embedder rerank_env = Some (\<lambda>text. Inr [Finite 0.1, Finite 0.2])"
  "cache rerank_env = None"
  "unquote rerank_env s = Inr s"
  "expand_query rerank_env q = Inr [q]"
  "sort_order_nan rerank_env keys = [0..<length keys]"
  "reranker rerank_env = Some example_endpoint"
  "ENABLE_RERANK rerank_env"
  by (simp_all add: rerank_env_def example_env_def)

lemma nan_rerank_env_fields:
  "opensearch_client nan_rerank_env = Some example_client"
  "embedder nan_rerank_env = Some (\<lambda>text. Inr [Finite 0.1, Finite 0.2])"
  "cache nan_rerank_env = None"
  "unquote nan_rerank_env s = Inr s"
  "expand_query nan_rerank_env q = Inr [q]"
  "sort_order_nan nan_rerank_env keys = [0..<length keys]"
  "reranker nan_rerank_env = Some nan_endpoint"
  "ENABLE_RERANK nan_rerank_env"
  by (simp_all add: nan_rerank_env_def example_env_def)


lemma reorder_env_fields:
  "opensearch_client reorder_env = Some reorder_client"
  "embedder reorder_env = Some (\<lambda>text. Inr [Finite 0.1, Finite 0.2])"
  "cache reorder_env = None"
  "unquote reorder_env s = Inr s"
  "expand_query reorder_env q = Inr [q]"
  "sort_order_nan reorder_env keys = [0..<length keys]"
  "reranker reorder_env = None"
  by (simp_all add: reorder_env_def example_env_def)

lemma rerank_if_enabled_none: "reranker env = None \<Longrightarrow> rerank_if_enabled env q rs = rs"
  by (simp add: rerank_if_enabled_def)

lemma rerank_if_enabled_some:
  "reranker env = Some ep \<Longrightarrow> ENABLE_RERANK env \<Longrightarrow> rs \<noteq> [] \<Longrightarrow>
     rerank_if_enabled env q rs = rerank_results env ep q rs"
  by (simp add: rerank_if_enabled_def)

subsection \<open>The rerankers\<close>

lemma example_endpoint_scores:
  "example_endpoint q [''glaucoma study'', ''optic nerve''] =
     Inr (Rerank_data [Some (Finite 0.2), Some (Finite 0.9)])"
  by (simp add: example_endpoint_def)

lemma nan_endpoint_scores:
  "nan_endpoint q [''glaucoma study'', ''optic nerve''] =
     Inr (Rerank_data [Some NaN, Some (Finite 0.9)])"
  by (simp add: nan_endpoint_def)

lemma example_rerank:
  "rerank env example_endpoint q [''glaucoma study'', ''optic nerve''] =
     [(''optic nerve'', Finite 0.9), (''glaucoma study'', Finite 0.2)]"
  by (simp add: rerank_def example_endpoint_scores sort_reverse_def)

lemma nan_rerank:
  assumes "\<And>keys. sort_order_nan env keys = [0..<length keys]"
  shows "rerank env nan_endpoint q [''glaucoma study'', ''optic nerve''] =
     [(''glaucoma study'', NaN), (''optic nerve'', Finite 0.9)]"
proof -
  have "sort_reverse env snd [(''glaucoma study'', NaN), (''optic nerve'', Finite 0.9)] =
          [(''glaucoma study'', NaN), (''optic nerve'', Finite 0.9)]"
    by (rule sort_reverse_nan_identity) (simp_all add: assms)
  then show ?thesis
    by (simp add: rerank_def nan_endpoint_scores)
qed

lemma example_rerank_results:
  "rerank_results env example_endpoint q
     [lexical_result env' ''keyword'' ts hit_a, vector_result_with hit_b reason] =
     [(lexical_result env' ''keyword'' ts hit_a)\<lparr>score := Finite 0.9\<rparr>,
      (vector_result_with hit_b reason)\<lparr>score := Finite 0.2\<rparr>]"
  unfolding rerank_results_unfold
  by (simp add: example_titles example_rerank overwrite_scores_def sort_by_score_def
      sort_reverse_def)

lemma nan_rerank_results:
  assumes "\<And>keys. sort_order_nan env keys = [0..<length keys]"
  shows "rerank_results env nan_endpoint q
     [lexical_result env' ''keyword'' ts hit_a, vector_result_with hit_b reason] =
     [(lexical_result env' ''keyword'' ts hit_a)\<lparr>score := NaN\<rparr>,
      (vector_result_with hit_b reason)\<lparr>score := Finite 0.9\<rparr>]"
proof -
  have "sort_by_score env
          [(lexical_result env' ''keyword'' ts hit_a)\<lparr>score := NaN\<rparr>,
           (vector_result_with hit_b reason)\<lparr>score := Finite 0.9\<rparr>] =
        [(lexical_result env' ''keyword'' ts hit_a)\<lparr>score := NaN\<rparr>,
         (vector_result_with hit_b reason)\<lparr>score := Finite 0.9\<rparr>]"
    by (rule sort_by_score_nan_identity) (simp_all add: assms)
  then show ?thesis
    unfolding rerank_results_unfold
    by (simp add: example_titles nan_rerank [OF assms] overwrite_scores_def)
qed

subsection \<open>The searches\<close>

lemma example_search:
  "search example_env (example_request ''keyword'') =
     \<lparr>total = 2,
      results = [lexical_result example_env ''keyword'' [''glaucoma''] hit_a,
                 vector_result_with hit_b (Some reason_not_enabled)],
      response_searchType = ''keyword'',
      rewrittenTerms = Some [''glaucoma''],
      search_id = None\<rparr>"
  using search_keyword_supplemented [of example_env example_client "example_request ''keyword''"
      "''glaucoma''" "[''glaucoma'']" "\<lparr>hits = [hit_a], total_value = 57\<rparr>"
      "\<lambda>text. Inr [Finite 0.1, Finite 0.2]" "[Finite 0.1, Finite 0.2]"
      "\<lparr>hits = [hit_b, hit_c], total_value = 57\<rparr>" "[hit_b]"]
  by (simp add: example_env_fields example_request_fields example_client_answers
      example_survivors gate_reason_disabled gated_result_disabled example_sorted
      rerank_if_enabled_none)

lemma rerank_env_search:
  "search rerank_env (example_request ''keyword'') =
     \<lparr>total = 2,
      results = [(lexical_result rerank_env ''keyword'' [''glaucoma''] hit_a)
                   \<lparr>score := Finite 0.9\<rparr>,
                 (vector_result_with hit_b (Some reason_not_enabled))\<lparr>score := Finite 0.2\<rparr>],
      response_searchType = ''keyword'',
      rewrittenTerms = Some [''glaucoma''],
      search_id = None\<rparr>"
  using search_keyword_supplemented [of rerank_env example_client "example_request ''keyword''"
      "''glaucoma''" "[''glaucoma'']" "\<lparr>hits = [hit_a], total_value = 57\<rparr>"
      "\<lambda>text. Inr [Finite 0.1, Finite 0.2]" "[Finite 0.1, Finite 0.2]"
      "\<lparr>hits = [hit_b, hit_c], total_value = 57\<rparr>" "[hit_b]"]
  by (simp add: rerank_env_fields example_request_fields example_client_answers
      example_survivors gate_reason_disabled gated_result_disabled example_sorted
      rerank_if_enabled_some example_rerank_results)

lemma nan_rerank_env_search:
  "search nan_rerank_env (example_request ''keyword'') =
     \<lparr>total = 2,
      results = [(lexical_result nan_rerank_env ''keyword'' [''glaucoma''] hit_a)
                   \<lparr>score := NaN\<rparr>,
                 (vector_result_with hit_b (Some reason_not_enabled))\<lparr>score := Finite 0.9\<rparr>],
      response_searchType = ''keyword'',
      rewrittenTerms = Some [''glaucoma''],
      search_id = None\<rparr>"
  using search_keyword_supplemented [of nan_rerank_env example_client
      "example_request ''keyword''"
      "''glaucoma''" "[''glaucoma'']" "\<lparr>hits = [hit_a], total_value = 57\<rparr>"
      "\<lambda>text. Inr [Finite 0.1, Finite 0.2]" "[Finite 0.1, Finite 0.2]"
      "\<lparr>hits = [hit_b, hit_c], total_value = 57\<rparr>" "[hit_b]"]
  by (simp add: nan_rerank_env_fields example_request_fields example_client_answers
      example_survivors gate_reason_disabled gated_result_disabled example_sorted
      rerank_if_enabled_some nan_rerank_results)


lemma reorder_env_search:
  "search reorder_env (example_request ''keyword'') =
     \<lparr>total = 3,
      results = [vector_result_with hit_d (Some reason_not_enabled),
                 lexical_result reorder_env ''keyword'' [''glaucoma''] hit_a,
                 vector_result_with hit_b (Some reason_not_enabled)],
      response_searchType = ''keyword'',
      rewrittenTerms = Some [''glaucoma''],
      search_id = None\<rparr>"
  using search_keyword_supplemented [of reorder_env reorder_client "example_request ''keyword''"
      "''glaucoma''" "[''glaucoma'']" "\<lparr>hits = [hit_a], total_value = 1\<rparr>"
      "\<lambda>text. Inr [Finite 0.1, Finite 0.2]" "[Finite 0.1, Finite 0.2]"
      "\<lparr>hits = [hit_d, hit_b, hit_c], total_value = 3\<rparr>" "[hit_d, hit_b]"]
  by (simp add: reorder_env_fields example_request_fields reorder_client_answers
      example_survivors gate_reason_disabled gated_result_disabled example_reordered
      rerank_if_enabled_none)

section \<open>The results are ordered by score\<close>

lemma example_client_hits:
  assumes "example_client index_name body params = Inr er"
  shows "hits er = [hit_a] \<or> hits er = [hit_b, hit_c] \<or> hits er = [hit_a, hit_b]"
  using assms by (cases "body_query body") (auto simp add: example_client_def)

lemma example_client_sorted:
  assumes "example_client index_name body params = Inr er"
  shows "non_increasing (map h_score (hits er))"
  using example_client_hits [OF assms]
  by (auto simp add: non_increasing_def example_scores)

lemma example_client_numeric:
  assumes "example_client index_name body params = Inr er"
  shows "NaN \<notin> set (map h_score (hits er))"
  using example_client_hits [OF assms]
  by (auto simp add: example_scores)

lemma example_endpoint_numeric:
  "example_endpoint q ps = Inr (Rerank_data items) \<Longrightarrow> Some NaN \<notin> set items"
  by (auto simp add: example_endpoint_def)

lemma rerank_env_hypotheses:
  "engine_sorted rerank_env" "engine_numeric rerank_env" "reranker_numeric rerank_env"
  using example_client_sorted example_client_numeric example_endpoint_numeric
  by (auto simp add: engine_sorted_def engine_numeric_def reranker_numeric_def
      rerank_env_fields)

lemma nan_rerank_env_hypotheses:
  "engine_sorted nan_rerank_env" "engine_numeric nan_rerank_env"
  using example_client_sorted example_client_numeric
  by (auto simp add: engine_sorted_def engine_numeric_def nan_rerank_env_fields)

text \<open>
  C6, with the hypothesis it needs. If every answer of the engine lists its hits by
  non-increasing score, and neither the engine nor the rerank endpoint gives NaN as a
  score, then the scores of the results of the response that \<open>search\<close> returns are
  non-increasing: for the three strategies, with or without supplementation, with or
  without reranking, and for the empty response.
\<close>

theorem search_scores_non_increasing:
  assumes "engine_sorted env" "engine_numeric env" "reranker_numeric env"
  shows "non_increasing (map score (results (search env request)))"
proof (cases "search_try env request")
  case (Inl e)
  then show ?thesis by (simp add: search_def empty_response_def non_increasing_def)
next
  case (Inr response)
  have "response = empty_response request \<or>
        (\<exists>q ts. hybrid_search env q ts request = Inr response) \<or>
        (\<exists>q ts. vector_search env q ts request = Inr response) \<or>
        (\<exists>q ts. keyword_search env q ts request = Inr response)"
    using Inr by (auto simp add: search_try_def Let_def split: if_splits sum.splits)
  then have "non_increasing (map score (results response))"
    using hybrid_search_sorted [OF assms] vector_search_sorted [OF assms(1)]
      keyword_search_sorted [OF assms]
    by (auto simp add: empty_response_def non_increasing_def)
  then show ?thesis using Inr by (simp add: search_def)
qed

theorem search_scores_non_increasing_witness:
  "engine_sorted rerank_env \<and> engine_numeric rerank_env \<and> reranker_numeric rerank_env \<and>
   map score (results (search rerank_env (example_request ''keyword''))) =
     [Finite 0.9, Finite 0.2] \<and>
   non_increasing (map score (results (search rerank_env (example_request ''keyword''))))"
proof -
  have s: "map score (results (search rerank_env (example_request ''keyword''))) =
             [Finite 0.9, Finite 0.2]"
    by (simp add: rerank_env_search)
  show ?thesis
    using s rerank_env_hypotheses
      search_scores_non_increasing [OF rerank_env_hypotheses, of "example_request ''keyword''"]
    by (intro conjI)
qed

text \<open>
  C6 as stated asks only that the engine returns its hits in descending score order.
  That is not enough: the rerank endpoint's scores are read with \<open>float\<close>, which can
  give NaN, and a list with a NaN among its scores is not put in order by the sort.
  With an engine whose answers are ordered and hold no NaN, and a rerank endpoint that
  answers NaN for one passage, the scores of the response are NaN, 0.9.
\<close>

theorem search_scores_non_increasing_counterexample:
  "engine_sorted nan_rerank_env \<and> engine_numeric nan_rerank_env \<and>
   map score (results (search nan_rerank_env (example_request ''keyword''))) =
     [NaN, Finite 0.9] \<and>
   \<not> non_increasing (map score (results (search nan_rerank_env (example_request ''keyword''))))"
  using nan_rerank_env_hypotheses
  by (simp add: nan_rerank_env_search non_increasing_def)

section \<open>Supplementing the keyword results\<close>









lemma reason_accepted_disabled: "reason_accepted (gate_reason env q False h)"
  by (simp add: gate_reason_disabled)




section \<open>Where the results of a keyword response come from\<close>

lemma lexical_from_keyword: "from_keyword (lexical_result env ''keyword'' ts h)"
  by (simp add: from_keyword_def lexical_result_def Let_def)

lemma gated_from_vector: "from_vector (gated_result env q b h)"
  by (simp add: from_vector_def gated_result_def vector_result_with_def)

lemma gated_result_fields:
  "source (gated_result env q b h) = Some ''vector''"
  "matched_keywords (gated_result env q b h) = None"
  "id' (gated_result env q b h) = src_id (h_source h)"
  "relevance_reason (gated_result env q b h) = reason_field (gate_reason env q b h)"
  by (simp_all add: gated_result_def vector_result_with_def)

lemma reason_field_None: "reason_accepted v \<Longrightarrow> (reason_field v = None) = (v = JNull)"
  by (cases v) simp_all

lemma reason_field_string: "reason_field (JString s) = Some s"
  by simp

text \<open>The gate's reason is \<open>None\<close> only when the LLM's answer decodes to a dict whose
  \<open>reason\<close> entry is \<open>null\<close>.\<close>

lemma gate_reason_null:
  assumes "gate_reason env q b h = JNull"
  shows "b \<and> openai_api_key env \<noteq> [] \<and>
         (\<exists>answer js kvs. chat_completion env q (eval_text h) = Inr answer \<and>
            find_json_str env (str_strip env answer) = Some js \<and>
            json_loads env js = Some (JObject kvs) \<and>
            map_of kvs ''reason'' = Some JNull)"
  using assms
  by (auto simp add: gate_reason_def evaluate_relevance_def dict_get_def
      split: if_splits sum.splits option.splits json.splits)

lemma keyword_search_sources:
  assumes "keyword_search env q ts request = Inr response"
  shows "\<forall>r\<in>set (results response). from_keyword r \<or> from_vector r"
proof -
  obtain er rs where o: "opensearch_search env
             (build_keyword_search_query ts (page request) (pageSize request)) [] = Inr er"
    and s: "(if length (hits er) < 10000 \<and> embedder env \<noteq> None
                 then supplement_with_vector_search env q ts
                        (map (lexical_result env ''keyword'' ts) (hits er)) (hit_ids (hits er))
                        request
                 else Inr (map (lexical_result env ''keyword'' ts) (hits er))) = Inr rs"
    and c: "save_to_cache env q request
                 \<lparr>total = int (length (rerank_if_enabled env q rs)),
                  results = rerank_if_enabled env q rs,
                  response_searchType = searchType request,
                  rewrittenTerms = Some ts,
                  search_id = None\<rparr> = Inr response"
    using assms unfolding keyword_search_unfold
    by (auto split: sum.splits)
  have "\<forall>r\<in>set rs. from_keyword r \<or> from_vector r"
  proof (cases "length (hits er) < 10000 \<and> embedder env \<noteq> None")
    case True
    then have so: "supplement_with_vector_search env q ts
                 (map (lexical_result env ''keyword'' ts) (hits er)) (hit_ids (hits er)) request
               = Inr rs"
      using s by simp
    obtain vr :: engine_response where "rs = sort_by_score env
                   (map (lexical_result env ''keyword'' ts) (hits er) @
                    map (gated_result env q (enableLlm request))
                      (survivors env q (enableLlm request) (hit_ids (hits er)) (hits vr)))"
      using supplement_Inr [OF so] by auto
    then show ?thesis
      by (auto simp add: set_sort_by_score lexical_from_keyword gated_from_vector)
  next
    case False
    then have "rs = map (lexical_result env ''keyword'' ts) (hits er)"
      using s by auto
    then show ?thesis by (auto simp add: lexical_from_keyword)
  qed
  then have "\<forall>r\<in>set (rerank_if_enabled env q rs). from_keyword r \<or> from_vector r"
    by (intro rerank_if_enabled_pred) (simp_all add: from_keyword_def from_vector_def)
  then show ?thesis
    using save_to_cache_fields(1) [OF c] by simp
qed

subsection \<open>The example index, with the gate disabled and with a reason of null\<close>

lemma example_supplement:
  "supplement_with_vector_search example_env ''glaucoma'' [''glaucoma'']
     [lexical_result example_env ''keyword'' [''glaucoma''] hit_a] (hit_ids [hit_a])
     (example_request ''keyword'') =
   Inr [lexical_result example_env ''keyword'' [''glaucoma''] hit_a,
        vector_result_with hit_b (Some reason_not_enabled)]"
proof -
  have ge: "get_embedding example_env (join '' '' [''glaucoma'', ''glaucoma'']) =
              Inr [Finite 0.1, Finite 0.2]"
    by (simp add: get_embedding_embedder [OF example_env_fields(2)])
  have v: "opensearch_search example_env
     (supplement_query [Finite 0.1, Finite 0.2] [''glaucoma''] (hit_ids [hit_a])
        (10000 - int (length [lexical_result example_env ''keyword'' [''glaucoma''] hit_a])))
     [] = Inr \<lparr>hits = [hit_b, hit_c], total_value = 57\<rparr>"
    by (simp add: opensearch_search_client [OF example_env_fields(1)] example_client_answers)
  have a: "\<forall>h\<in>set (survivors example_env ''glaucoma''
                      (enableLlm (example_request ''keyword'')) (hit_ids [hit_a])
                      (hits \<lparr>hits = [hit_b, hit_c], total_value = 57\<rparr>)).
             reason_accepted (gate_reason example_env ''glaucoma''
                                (enableLlm (example_request ''keyword'')) h)"
    by (simp add: example_request_fields reason_accepted_disabled)
  show ?thesis
    using supplement_accepted [OF ge v a]
    by (simp add: example_request_fields example_survivors gated_result_disabled
        example_sorted)
qed

lemma example_keyword_search:
  "keyword_search example_env ''glaucoma'' [''glaucoma''] (example_request ''keyword'') =
     Inr \<lparr>total = 2,
          results = [lexical_result example_env ''keyword'' [''glaucoma''] hit_a,
                     vector_result_with hit_b (Some reason_not_enabled)],
          response_searchType = ''keyword'',
          rewrittenTerms = Some [''glaucoma''],
          search_id = None\<rparr>"
proof -
  have kw: "opensearch_search example_env
     (build_keyword_search_query [''glaucoma''] (page (example_request ''keyword''))
        (pageSize (example_request ''keyword''))) [] =
     Inr \<lparr>hits = [hit_a], total_value = 57\<rparr>"
    by (simp add: opensearch_search_client [OF example_env_fields(1)] example_client_answers)
  show ?thesis
    unfolding keyword_search_unfold
    by (simp add: kw example_env_fields hit_ids_def [symmetric] example_supplement
        rerank_if_enabled_none save_to_cache_no_cache)
       (simp add: example_request_fields)
qed

lemma null_reason_env_fields:
  "opensearch_client null_reason_env = Some example_client"
  "embedder null_reason_env = Some (\<lambda>text. Inr [Finite 0.1, Finite 0.2])"
  "cache null_reason_env = None"
  "unquote null_reason_env s = Inr s"
  "expand_query null_reason_env q = Inr [q]"
  "sort_order_nan null_reason_env keys = [0..<length keys]"
  "reranker null_reason_env = None"
  "openai_api_key null_reason_env \<noteq> []"
  "chat_completion null_reason_env q t = Inr null_reason_answer"
  "json_loads null_reason_env = example_loads"
  "str_strip null_reason_env = ascii_strip"
  "re_skip_space null_reason_env = ascii_skip_space"
  by (simp_all add: null_reason_env_def example_env_def)

lemma find_json_str_null_reason:
  "find_json_str example_env (ascii_strip null_reason_answer) = Some null_reason_json"
  by code_simp

lemma example_loads_null_reason:
  "example_loads null_reason_json =
     Some (JObject [(''is_relevant'', JBool True), (''reason'', JNull)])"
  by code_simp

lemma null_reason_nonempty: "null_reason_json \<noteq> []"
  by code_simp

lemma null_reason_env_gate:
  "evaluate_relevance null_reason_env q t True = (JBool True, JNull)"
  by (simp add: evaluate_relevance_def null_reason_env_fields
      find_json_str_ascii [of null_reason_env] find_json_str_null_reason
      null_reason_nonempty example_loads_null_reason dict_get_def)

lemma null_reason_env_survivors:
  "survivors null_reason_env q True (hit_ids [hit_a]) [hit_b, hit_c] = [hit_b]"
  by (simp add: survivors_def survives_def hit_ids_def relevant_def null_reason_env_gate
      example_scores example_ids)

lemma null_reason_env_search:
  "search null_reason_env ((example_request ''keyword'')\<lparr>enableLlm := True\<rparr>) =
     \<lparr>total = 2,
      results = [lexical_result null_reason_env ''keyword'' [''glaucoma''] hit_a,
                 vector_result_with hit_b None],
      response_searchType = ''keyword'',
      rewrittenTerms = Some [''glaucoma''],
      search_id = None\<rparr>"
  using search_keyword_supplemented [of null_reason_env example_client
      "(example_request ''keyword'')\<lparr>enableLlm := True\<rparr>"
      "''glaucoma''" "[''glaucoma'']" "\<lparr>hits = [hit_a], total_value = 57\<rparr>"
      "\<lambda>text. Inr [Finite 0.1, Finite 0.2]" "[Finite 0.1, Finite 0.2]"
      "\<lparr>hits = [hit_b, hit_c], total_value = 57\<rparr>" "[hit_b]"]
  by (simp add: null_reason_env_fields example_request_fields example_client_answers
      null_reason_env_survivors gate_reason_def gated_result_def null_reason_env_gate
      example_sorted rerank_if_enabled_none)

text \<open>
  C10, as the code has it. Every result that supplementation adds to the keyword results
  is built from a kept candidate; it carries the source \<open>vector\<close>, no matched keywords
  and an id that was not seen, and its relevance reason is the reason the gate gave for
  the candidate: a string, or \<open>None\<close> when the gate's reason is \<open>None\<close>, which happens
  only when the LLM's answer decodes to a dict whose \<open>reason\<close> entry is \<open>null\<close>. With
  the gate disabled the reason is the fixed string \<open>reason_not_enabled\<close>. A response
  of the keyword strategy echoes the request's \<open>searchType\<close>, and each of its results is
  either a keyword result (source \<open>keyword\<close>, matched keywords set, no relevance reason)
  or such a vector result; so a response with \<open>searchType\<close> keyword can hold results
  whose source is \<open>vector\<close>.
\<close>

theorem supplemented_results_vector:
  "(supplement_with_vector_search env q ts rs seen request = Inr out \<longrightarrow>
      (\<exists>kept. out = sort_by_score env
                       (rs @ map (gated_result env q (enableLlm request)) kept) \<and>
         (\<forall>h\<in>set kept.
            source (gated_result env q (enableLlm request) h) = Some ''vector'' \<and>
            matched_keywords (gated_result env q (enableLlm request) h) = None \<and>
            id' (gated_result env q (enableLlm request) h) \<notin> seen \<and>
            relevance_reason (gated_result env q (enableLlm request) h) =
              reason_field (gate_reason env q (enableLlm request) h) \<and>
            ((relevance_reason (gated_result env q (enableLlm request) h) = None) =
               (gate_reason env q (enableLlm request) h = JNull)) \<and>
            (\<not> enableLlm request \<longrightarrow>
               relevance_reason (gated_result env q (enableLlm request) h) =
                 Some reason_not_enabled)))) \<and>
   (gate_reason env q enabled candidate = JNull \<longrightarrow>
      enabled \<and> openai_api_key env \<noteq> [] \<and>
      (\<exists>answer js kvs. chat_completion env q (eval_text candidate) = Inr answer \<and>
         find_json_str env (str_strip env answer) = Some js \<and>
         json_loads env js = Some (JObject kvs) \<and>
         map_of kvs ''reason'' = Some JNull)) \<and>
   (keyword_search env q ts request = Inr response \<longrightarrow>
      response_searchType response = searchType request \<and>
      (\<forall>r\<in>set (results response).
         (source r = Some ''keyword'' \<and> matched_keywords r \<noteq> None \<and>
          relevance_reason r = None) \<or>
         (source r = Some ''vector'' \<and> matched_keywords r = None)))"
proof -
  have a: "supplement_with_vector_search env q ts rs seen request = Inr out \<longrightarrow>
      (\<exists>kept. out = sort_by_score env
                       (rs @ map (gated_result env q (enableLlm request)) kept) \<and>
         (\<forall>h\<in>set kept.
            source (gated_result env q (enableLlm request) h) = Some ''vector'' \<and>
            matched_keywords (gated_result env q (enableLlm request) h) = None \<and>
            id' (gated_result env q (enableLlm request) h) \<notin> seen \<and>
            relevance_reason (gated_result env q (enableLlm request) h) =
              reason_field (gate_reason env q (enableLlm request) h) \<and>
            ((relevance_reason (gated_result env q (enableLlm request) h) = None) =
               (gate_reason env q (enableLlm request) h = JNull)) \<and>
            (\<not> enableLlm request \<longrightarrow>
               relevance_reason (gated_result env q (enableLlm request) h) =
                 Some reason_not_enabled)))"
  proof
    assume so: "supplement_with_vector_search env q ts rs seen request = Inr out"
    obtain vr :: engine_response where
      o: "out = sort_by_score env
                   (rs @ map (gated_result env q (enableLlm request))
                           (survivors env q (enableLlm request) seen (hits vr)))"
      and ac: "\<forall>h\<in>set (survivors env q (enableLlm request) seen (hits vr)).
                 reason_accepted (gate_reason env q (enableLlm request) h)"
      using supplement_Inr [OF so] by auto
    have "\<forall>h\<in>set (survivors env q (enableLlm request) seen (hits vr)).
            source (gated_result env q (enableLlm request) h) = Some ''vector'' \<and>
            matched_keywords (gated_result env q (enableLlm request) h) = None \<and>
            id' (gated_result env q (enableLlm request) h) \<notin> seen \<and>
            relevance_reason (gated_result env q (enableLlm request) h) =
              reason_field (gate_reason env q (enableLlm request) h) \<and>
            ((relevance_reason (gated_result env q (enableLlm request) h) = None) =
               (gate_reason env q (enableLlm request) h = JNull)) \<and>
            (\<not> enableLlm request \<longrightarrow>
               relevance_reason (gated_result env q (enableLlm request) h) =
                 Some reason_not_enabled)"
    proof
      fix h
      assume h: "h \<in> set (survivors env q (enableLlm request) seen (hits vr))"
      then have u: "src_id (h_source h) \<notin> seen"
        by (simp add: survivors_def survives_def)
      have r: "reason_accepted (gate_reason env q (enableLlm request) h)"
        using ac h by blast
      have d: "\<not> enableLlm request \<longrightarrow>
               relevance_reason (gated_result env q (enableLlm request) h) =
                 Some reason_not_enabled"
        by (simp add: gated_result_fields gate_reason_disabled)
      show "source (gated_result env q (enableLlm request) h) = Some ''vector'' \<and>
            matched_keywords (gated_result env q (enableLlm request) h) = None \<and>
            id' (gated_result env q (enableLlm request) h) \<notin> seen \<and>
            relevance_reason (gated_result env q (enableLlm request) h) =
              reason_field (gate_reason env q (enableLlm request) h) \<and>
            ((relevance_reason (gated_result env q (enableLlm request) h) = None) =
               (gate_reason env q (enableLlm request) h = JNull)) \<and>
            (\<not> enableLlm request \<longrightarrow>
               relevance_reason (gated_result env q (enableLlm request) h) =
                 Some reason_not_enabled)"
        using u d reason_field_None [OF r] by (simp add: gated_result_fields)
    qed
    then show "\<exists>kept. out = sort_by_score env
                       (rs @ map (gated_result env q (enableLlm request)) kept) \<and>
         (\<forall>h\<in>set kept.
            source (gated_result env q (enableLlm request) h) = Some ''vector'' \<and>
            matched_keywords (gated_result env q (enableLlm request) h) = None \<and>
            id' (gated_result env q (enableLlm request) h) \<notin> seen \<and>
            relevance_reason (gated_result env q (enableLlm request) h) =
              reason_field (gate_reason env q (enableLlm request) h) \<and>
            ((relevance_reason (gated_result env q (enableLlm request) h) = None) =
               (gate_reason env q (enableLlm request) h = JNull)) \<and>
            (\<not> enableLlm request \<longrightarrow>
               relevance_reason (gated_result env q (enableLlm request) h) =
                 Some reason_not_enabled))"
      using o by blast
  qed
  have n: "gate_reason env q enabled candidate = JNull \<longrightarrow>
      enabled \<and> openai_api_key env \<noteq> [] \<and>
      (\<exists>answer js kvs. chat_completion env q (eval_text candidate) = Inr answer \<and>
         find_json_str env (str_strip env answer) = Some js \<and>
         json_loads env js = Some (JObject kvs) \<and>
         map_of kvs ''reason'' = Some JNull)"
    using gate_reason_null by blast
  have b: "keyword_search env q ts request = Inr response \<longrightarrow>
      response_searchType response = searchType request \<and>
      (\<forall>r\<in>set (results response).
         (source r = Some ''keyword'' \<and> matched_keywords r \<noteq> None \<and>
          relevance_reason r = None) \<or>
         (source r = Some ''vector'' \<and> matched_keywords r = None))"
  proof
    assume k: "keyword_search env q ts request = Inr response"
    have "response_searchType response = searchType request"
      using k unfolding keyword_search_unfold
      by (auto split: sum.splits dest!: save_to_cache_fields(3))
    then show "response_searchType response = searchType request \<and>
      (\<forall>r\<in>set (results response).
         (source r = Some ''keyword'' \<and> matched_keywords r \<noteq> None \<and>
          relevance_reason r = None) \<or>
         (source r = Some ''vector'' \<and> matched_keywords r = None))"
      using keyword_search_sources [OF k]
      by (simp add: from_keyword_def from_vector_def)
  qed
  show ?thesis using a n b by (intro conjI)
qed

theorem supplemented_results_vector_witness:
  "supplement_with_vector_search example_env ''glaucoma'' [''glaucoma'']
     [lexical_result example_env ''keyword'' [''glaucoma''] hit_a] (hit_ids [hit_a])
     (example_request ''keyword'') =
   Inr [lexical_result example_env ''keyword'' [''glaucoma''] hit_a,
        vector_result_with hit_b (Some reason_not_enabled)] \<and>
   keyword_search example_env ''glaucoma'' [''glaucoma''] (example_request ''keyword'') =
     Inr \<lparr>total = 2,
          results = [lexical_result example_env ''keyword'' [''glaucoma''] hit_a,
                     vector_result_with hit_b (Some reason_not_enabled)],
          response_searchType = ''keyword'',
          rewrittenTerms = Some [''glaucoma''],
          search_id = None\<rparr> \<and>
   gate_reason null_reason_env ''glaucoma'' True hit_b = JNull \<and>
   (\<exists>answer js kvs. chat_completion null_reason_env ''glaucoma'' (eval_text hit_b) = Inr answer \<and>
      find_json_str null_reason_env (str_strip null_reason_env answer) = Some js \<and>
      json_loads null_reason_env js = Some (JObject kvs) \<and>
      map_of kvs ''reason'' = Some JNull) \<and>
   source (vector_result_with hit_b (Some reason_not_enabled)) = Some ''vector'' \<and>
   relevance_reason (vector_result_with hit_b (Some reason_not_enabled)) =
     Some reason_not_enabled \<and>
   matched_keywords (vector_result_with hit_b (Some reason_not_enabled)) = None \<and>
   source (lexical_result example_env ''keyword'' [''glaucoma''] hit_a) = Some ''keyword''"
proof -
  let ?A = "lexical_result example_env ''keyword'' [''glaucoma''] hit_a"
  let ?B = "vector_result_with hit_b (Some reason_not_enabled)"
  note s = example_supplement
  note k = example_keyword_search
  have g: "gate_reason null_reason_env ''glaucoma'' True hit_b = JNull"
    by (simp add: gate_reason_def null_reason_env_gate)
  note T = supplemented_results_vector
    [where env = example_env and q = "''glaucoma''" and ts = "[''glaucoma'']"
       and rs = "[?A]" and seen = "hit_ids [hit_a]" and request = "example_request ''keyword''"
       and out = "[?A, ?B]"
       and response = "\<lparr>total = 2, results = [?A, ?B],
          response_searchType = ''keyword'',
          rewrittenTerms = Some [''glaucoma''],
          search_id = None\<rparr>"]
  note N = supplemented_results_vector
    [where env = null_reason_env and q = "''glaucoma''" and enabled = True
       and candidate = hit_b]
  have all: "\<forall>r\<in>set [?A, ?B].
         (source r = Some ''keyword'' \<and> matched_keywords r \<noteq> None \<and>
          relevance_reason r = None) \<or>
         (source r = Some ''vector'' \<and> matched_keywords r = None)"
    using T s k by simp
  have nl: "\<exists>answer js kvs.
      chat_completion null_reason_env ''glaucoma'' (eval_text hit_b) = Inr answer \<and>
      find_json_str null_reason_env (str_strip null_reason_env answer) = Some js \<and>
      json_loads null_reason_env js = Some (JObject kvs) \<and>
      map_of kvs ''reason'' = Some JNull"
    using N g by blast
  have lk: "source ?A = Some ''keyword''"
    by (simp add: lexical_result_def Let_def)
  have nv: "source ?B \<noteq> Some ''keyword''"
    by (simp add: vector_result_with_def)
  have v: "source ?B = Some ''vector'' \<and> matched_keywords ?B = None"
    using all nv by auto
  have rr: "relevance_reason ?B = Some reason_not_enabled"
    by (simp add: vector_result_with_def)
  show ?thesis
    using s k g nl v rr lk by (intro conjI) auto
qed

text \<open>
  C10 as stated has every supplemented result carry a relevance reason. When the LLM
  judges a candidate relevant and gives \<open>null\<close> as the reason, the gate returns \<open>None\<close>
  for the reason, the result constructor accepts it, and the supplemented result of
  the response has no relevance reason.
\<close>

theorem supplemented_results_vector_counterexample:
  "chat_completion null_reason_env ''glaucoma'' (eval_text hit_b) = Inr null_reason_answer \<and>
   json_loads null_reason_env null_reason_json =
     Some (JObject [(''is_relevant'', JBool True), (''reason'', JNull)]) \<and>
   evaluate_relevance null_reason_env ''glaucoma'' (eval_text hit_b) True = (JBool True, JNull) \<and>
   results (search null_reason_env ((example_request ''keyword'')\<lparr>enableLlm := True\<rparr>)) =
     [lexical_result null_reason_env ''keyword'' [''glaucoma''] hit_a,
      vector_result_with hit_b None] \<and>
   map (\<lambda>r. (id' r, source r, relevance_reason r))
     (results (search null_reason_env ((example_request ''keyword'')\<lparr>enableLlm := True\<rparr>))) =
     [(''1'', Some ''keyword'', None), (''2'', Some ''vector'', None)]"
  by (simp add: null_reason_env_search null_reason_env_gate null_reason_env_fields
      example_loads_null_reason lexical_result_def vector_result_with_def Let_def example_ids)

section \<open>Matched keywords of a keyword hit\<close>

lemma hit_a_substring:
  "find_matched_keywords example_env [''glaucoma''] (h_source hit_a) = [''glaucoma'']"
  by code_simp

lemma hit_a_highlight:
  "extract_matched_keywords example_env [(''title'', [''<em>glaucoma</em> study''])] =
     [''glaucoma'']"
  by code_simp

text \<open>
  C4 says that \<open>matchedKeywords\<close> holds no entry twice. The code concatenates the terms
  found as substrings with the (deduplicated) highlighted terms and does not deduplicate
  the concatenation: for the term \<open>glaucoma\<close>, a hit titled \<open>glaucoma study\<close> whose
  highlight marks \<open>glaucoma\<close> gets the term twice.
\<close>

theorem matched_keywords_duplicate:
  "find_matched_keywords example_env [''glaucoma''] (h_source hit_a) = [''glaucoma''] \<and>
   extract_matched_keywords example_env [(''title'', [''<em>glaucoma</em> study''])] =
     [''glaucoma''] \<and>
   map matched_keywords (results (search example_env (example_request ''keyword''))) =
     [Some [''glaucoma'', ''glaucoma''], None] \<and>
   \<not> distinct [''glaucoma'', ''glaucoma'']"
proof -
  have m: "matched_keywords (lexical_result example_env ''keyword'' [''glaucoma''] hit_a) =
             Some [''glaucoma'', ''glaucoma'']"
    using hit_a_substring hit_a_highlight
    by (simp add: lexical_result_def Let_def) (simp add: hit_a_def)
  have v: "matched_keywords (vector_result_with hit_b (Some reason_not_enabled)) = None"
    by (simp add: vector_result_with_def)
  show ?thesis
    using hit_a_substring hit_a_highlight m v by (simp add: example_search)
qed

section \<open>Reranker scores and positions\<close>

text \<open>
  C2 says that the reranker's scores are aligned with the titles and that each result
  gets the score at its position. \<open>BGEReranker.rerank\<close> sorts its pairs by descending
  score before returning them, and \<open>_rerank_results\<close> reads them by position: the
  endpoint scores \<open>glaucoma study\<close> 0.2 and \<open>optic nerve\<close> 0.9, and the code gives
  \<open>glaucoma study\<close> 0.9 and \<open>optic nerve\<close> 0.2, leaving the order as it was.
\<close>

theorem rerank_results_misaligned:
  "example_endpoint ''glaucoma'' [''glaucoma study'', ''optic nerve''] =
     Inr (Rerank_data [Some (Finite 0.2), Some (Finite 0.9)]) \<and>
   map title [lexical_result rerank_env ''keyword'' [''glaucoma''] hit_a,
              vector_result_with hit_b (Some reason_not_enabled)] =
     [''glaucoma study'', ''optic nerve''] \<and>
   rerank rerank_env example_endpoint ''glaucoma'' [''glaucoma study'', ''optic nerve''] =
     [(''optic nerve'', Finite 0.9), (''glaucoma study'', Finite 0.2)] \<and>
   rerank_results rerank_env example_endpoint ''glaucoma''
     [lexical_result rerank_env ''keyword'' [''glaucoma''] hit_a,
      vector_result_with hit_b (Some reason_not_enabled)] =
     [(lexical_result rerank_env ''keyword'' [''glaucoma''] hit_a)\<lparr>score := Finite 0.9\<rparr>,
      (vector_result_with hit_b (Some reason_not_enabled))\<lparr>score := Finite 0.2\<rparr>] \<and>
   map (\<lambda>r. (title r, score r))
     (rerank_results rerank_env example_endpoint ''glaucoma''
        [lexical_result rerank_env ''keyword'' [''glaucoma''] hit_a,
         vector_result_with hit_b (Some reason_not_enabled)]) =
     [(''glaucoma study'', Finite 0.9), (''optic nerve'', Finite 0.2)]"
  by (simp add: example_endpoint_scores example_titles example_rerank example_rerank_results)

end
